theory Spec2Isabelle
  imports Complex_Main "HOL-Library.Word" "HOL-Library.Signed_Division" "HOL-Library.Log_Nat"
begin

unbundle bit_operations_syntax

section \<open>Data model (shared/models)\<close>

text \<open>
  Go strings are byte sequences: \<^typ>\<open>string\<close> (a list of 8-bit characters). Go's
  \<open>int\<close> is modelled by \<^typ>\<open>int\<close>, with Go's truncating division and remainder
  (\<open>sdiv\<close>, \<open>smod\<close>); the \<open>atomic.Int64\<close> counters are 64-bit words, read
  as two's complement by \<^const>\<open>sint\<close>. Field names follow the Go structs; where two
  structs share a field name one of the records prefixes it (\<open>DTimestamp\<close> of a
  \<open>Data\<close>, \<open>BTimestamp\<close> of a \<open>MessageBatch\<close>, \<open>TestErrors\<close> of a
  \<open>TestStats\<close>, \<open>ServerMessagesReceived\<close> of a \<open>ServerStats\<close>).
\<close>

type_synonym byte = "8 word"
type_synonym int64 = "64 word"
type_synonym uint32 = "32 word"

record Message =
  SendTime :: string
  MessageID :: int
  Timestamp :: string
  Payload :: string
  Checksum :: string

record Data =
  ID :: int
  DTimestamp :: string
  IndicatorID :: int
  IndicatorValue :: string
  EquipmentID :: int

text \<open>\<open>Messages []*Message\<close>: an entry is a pointer and may be nil.\<close>

record MessageBatch =
  Messages :: "Message option list"
  BTimestamp :: string
  Count :: int

datatype TestType = TestTypeBatch | TestTypeStream | TestTypeLarge | TestTypeBulk

text \<open>\<open>type TestProtocol string\<close>, with its two constants.\<close>

type_synonym TestProtocol = string

definition ProtocolMQTT :: TestProtocol where
  "ProtocolMQTT = ''mqtt''"


record TestConfig =
  Type :: TestType
  Protocol :: TestProtocol
  ThreadCount :: int
  PacketSize :: int
  MessagesPerSec :: int
  Duration :: int
  TotalMessages :: int


text \<open>A Go run-time panic, as a value.\<close>

datatype panic = DivideByZero | NilDereference | IndexOutOfRange

section \<open>Library functions\<close>

text \<open>
  The functions of Go's standard library that the code calls (\<open>encoding/json\<close>,
  \<open>crypto/sha256\<close> with \<open>encoding/hex\<close>, \<open>time.Parse\<close>) are parameters of the
  model. \<open>json_Unmarshal_*\<close> and \<open>time_Parse\<close> return \<open>None\<close> for Go's error;
  a parsed time is a count of nanoseconds since the epoch.
\<close>

record library =
  json_Marshal_Data :: "Data \<Rightarrow> string"
  json_Marshal_DataList :: "Data list \<Rightarrow> string"
  json_Marshal_Message :: "Message option \<Rightarrow> byte list"
  json_Marshal_Batch :: "MessageBatch \<Rightarrow> byte list"
  json_Unmarshal_Message :: "byte list \<Rightarrow> Message option"
  json_Unmarshal_Batch :: "byte list \<Rightarrow> MessageBatch option"
  sha256_hex :: "string \<Rightarrow> string"
  time_Parse :: "string \<Rightarrow> int option"

text \<open>shared/utils: \<open>CalculateChecksumString\<close> is the hex SHA-256 of the string's bytes.\<close>

definition CalculateChecksumString :: "library \<Rightarrow> string \<Rightarrow> string" where
  "CalculateChecksumString lib data = sha256_hex lib data"

section \<open>Load driver (sender/internal/test/manager.go)\<close>

record Manager =
  messageIDGen :: int64

definition NewManager :: Manager where
  "NewManager = \<lparr>messageIDGen = 0\<rparr>"

text \<open>\<open>int(m.messageIDGen.Add(1))\<close>: the counter is incremented and its new value read.\<close>

definition nextMessageID :: "Manager \<Rightarrow> int \<times> Manager" where
  "nextMessageID m = (let v = messageIDGen m + 1 in (sint v, m\<lparr>messageIDGen := v\<rparr>))"

text \<open>
  The body of the message loop of \<open>batchWorker\<close> (lines 157-167): \<open>dataIndex\<close> is
  incremented between the payload and the timestamp. \<open>now\<close> is the value
  \<open>utils.GetCurrentTime()\<close> returns. An empty corpus makes \<open>dataIndex%len(data)\<close> panic.
\<close>

definition batchMessage ::
  "library \<Rightarrow> Data list \<Rightarrow> nat \<Rightarrow> string \<Rightarrow> Manager \<Rightarrow> panic + (Message \<times> Manager)" where
  "batchMessage lib data dataIndex now m =
     (if length data = 0 then Inl DivideByZero
      else
        let payload = json_Marshal_Data lib (data ! (dataIndex mod length data));
            dataIndex' = dataIndex + 1;
            (mid, m') = nextMessageID m
        in Inr (\<lparr>SendTime = now, MessageID = mid,
                  Timestamp = DTimestamp (data ! (dataIndex' mod length data)),
                  Payload = payload,
                  Checksum = CalculateChecksumString lib payload\<rparr>, m'))"

text \<open>The same construction in the ticker branch of \<open>RunStreamTest\<close> (lines 268-278).\<close>

definition streamMessage ::
  "library \<Rightarrow> Data list \<Rightarrow> nat \<Rightarrow> string \<Rightarrow> Manager \<Rightarrow> panic + (Message \<times> Manager)" where
  "streamMessage lib data dataIndex now m =
     (if length data = 0 then Inl DivideByZero
      else
        let payload = json_Marshal_Data lib (data ! (dataIndex mod length data));
            dataIndex' = dataIndex + 1;
            (mid, m') = nextMessageID m
        in Inr (\<lparr>SendTime = now, MessageID = mid,
                  Timestamp = DTimestamp (data ! (dataIndex' mod length data)),
                  Payload = payload,
                  Checksum = CalculateChecksumString lib payload\<rparr>, m'))"

text \<open>\<open>largePacketWorker\<close> (lines 388-397): the whole corpus is one payload; both time
  fields are clock readings.\<close>

definition largeMessage ::
  "library \<Rightarrow> Data list \<Rightarrow> string \<Rightarrow> string \<Rightarrow> Manager \<Rightarrow> Message \<times> Manager" where
  "largeMessage lib data now1 now2 m =
     (let payload = json_Marshal_DataList lib data;
          (mid, m') = nextMessageID m
      in (\<lparr>SendTime = now1, MessageID = mid, Timestamp = now2,
            Payload = payload,
            Checksum = CalculateChecksumString lib payload\<rparr>, m'))"











section \<open>Checksum validator (recipient/internal/validator)\<close>

datatype validation_error = NilMessage | EmptyPayload | MissingChecksum

text \<open>
  What the recipient hands to its logger (\<open>zap\<close>): the level of each line and its
  fields, every field with its key as in the source (\<open>zap.Error(err)\<close> has the key
  \<open>error\<close>). The message texts, one constant per call, are left out.
\<close>

datatype level = DebugLevel | InfoLevel | WarnLevel | ErrorLevel

datatype field =
    zap_Int string int
  | zap_String string string
  | zap_Bool string bool
  | zap_Error validation_error

type_synonym log_entry = "level \<times> field list"

text \<open>\<open>ValidateMessage\<close>: the result, the error, and the debug line it logs on a mismatch.\<close>

definition ValidateMessage ::
  "library \<Rightarrow> Message option \<Rightarrow> bool \<times> validation_error option \<times> log_entry list" where
  "ValidateMessage lib message =
     (case message of
        None \<Rightarrow> (False, Some NilMessage, [])
      | Some msg \<Rightarrow>
          if Payload msg = [] then (False, Some EmptyPayload, [])
          else if Checksum msg = [] then (False, Some MissingChecksum, [])
          else
            let calculatedChecksum = CalculateChecksumString lib (Payload msg);
                isValid = (calculatedChecksum = Checksum msg)
            in (isValid, None,
                if \<not> isValid
                then [(DebugLevel,
                        [zap_Int ''message_id'' (MessageID msg),
                         zap_String ''expected'' (Checksum msg),
                         zap_String ''calculated'' calculatedChecksum,
                         zap_Int ''payload_length'' (int (length (Payload msg)))])]
                else []))"

record ChecksumComparison =
  Expected :: string
  Actual :: string
  IsValid :: bool
  FirstMismatchPosition :: int
  LengthDifference :: int

text \<open>
  \<open>CompareChecksums\<close> is a method of the validator that nothing in the repository
  calls; \<open>ProcessMessage\<close> below does not use it. Its loop
  \<open>for i := 0; i < minLen; i++\<close> gives the first index where the bytes differ, or
  the field's old value \<open>pos\<close> when the loop ends without a \<open>break\<close>.
\<close>

function findMismatch :: "string \<Rightarrow> string \<Rightarrow> nat \<Rightarrow> nat \<Rightarrow> int \<Rightarrow> int" where
  "findMismatch expected actual minLen i pos =
     (if i < minLen
      then if expected ! i \<noteq> actual ! i then int i
           else findMismatch expected actual minLen (i + 1) pos
      else pos)"
  by pat_completeness auto
termination
  by (relation "measure (\<lambda>(expected, actual, minLen, i, pos). minLen - i)") auto

definition CompareChecksums :: "string \<Rightarrow> string \<Rightarrow> ChecksumComparison" where
  "CompareChecksums expected actual =
     (let isValid = (expected = actual);
          comparison = \<lparr>Expected = expected, Actual = actual, IsValid = isValid,
                         FirstMismatchPosition = 0, LengthDifference = 0\<rparr>
      in if \<not> isValid
         then
           let minLen = (if length actual < length expected then length actual
                         else length expected)
           in comparison
                \<lparr>FirstMismatchPosition :=
                   findMismatch expected actual minLen 0 (FirstMismatchPosition comparison),
                 LengthDifference := int (length expected) - int (length actual)\<rparr>
         else comparison)"

section \<open>Time utilities (shared/utils)\<close>

text \<open>
  A \<open>time.Time\<close> is a count of nanoseconds since the epoch. \<open>Time.Sub\<close> gives a
  \<open>Duration\<close>, a signed 64-bit count of nanoseconds that saturates;
  \<open>Duration.Microseconds\<close> divides by 1000, truncating.
\<close>

definition time_Sub :: "int \<Rightarrow> int \<Rightarrow> int" where
  "time_Sub t u = max (- (2 ^ 63)) (min (2 ^ 63 - 1) (t - u))"

definition Microseconds :: "int \<Rightarrow> int" where
  "Microseconds d = d sdiv 1000"

datatype parse_error = ParseError

definition ParseTime :: "library \<Rightarrow> string \<Rightarrow> parse_error + int" where
  "ParseTime lib timeStr = (case time_Parse lib timeStr of None \<Rightarrow> Inl ParseError | Some t \<Rightarrow> Inr t)"

text \<open>
  A \<open>float64\<close> is the rational number it stands for. Every operation gives the
  exact result rounded to the nearest number with 53 significant bits, ties to the even
  one (IEEE 754 binary64, with its gradual underflow below \<open>2^-1022\<close>); infinities
  and NaN are not modelled, no value here comes near \<open>2^1024\<close>. \<open>binade x\<close> is the
  exponent \<open>e\<close> with \<open>2^e \<le> |x| < 2^(e+1)\<close>.
\<close>

type_synonym float64 = rat

definition round_half_even :: "rat \<Rightarrow> int" where
  "round_half_even y =
     (let f = \<lfloor>y\<rfloor>; d = y - of_int f
      in if d < 1 / 2 then f else if 1 / 2 < d then f + 1 else if even f then f else f + 1)"

definition binade :: "rat \<Rightarrow> int" where
  "binade x =
     (let (p, q) = quotient_of \<bar>x\<bar>; e = bitlen p - bitlen q
      in if 2 powi e \<le> \<bar>x\<bar> then e else e - 1)"

definition float64_round :: "rat \<Rightarrow> float64" where
  "float64_round x =
     (if x = 0 then 0
      else let s = min (52 - binade x) 1074
           in of_int (round_half_even (x * 2 powi s)) / 2 powi s)"

text \<open>Go's \<open>float64(n)\<close> of an integer, \<open>x / y\<close> and \<open>x * y\<close>.\<close>

definition float64_of_int64 :: "int \<Rightarrow> float64" where
  "float64_of_int64 n = float64_round (of_int n)"

definition float64_div :: "float64 \<Rightarrow> float64 \<Rightarrow> float64" where
  "float64_div x y = float64_round (x / y)"

definition float64_mul :: "float64 \<Rightarrow> float64 \<Rightarrow> float64" where
  "float64_mul x y = float64_round (x * y)"

text \<open>
  Go's conversion \<open>int64(x)\<close> of a float: the fraction is dropped. For a value outside
  the range of \<open>int64\<close> Go leaves the result to the implementation; the one given is
  that of amd64, the smallest \<open>int64\<close>.
\<close>

definition int64_of_float64 :: "float64 \<Rightarrow> int64" where
  "int64_of_float64 x =
     (let t = (if 0 \<le> x then \<lfloor>x\<rfloor> else \<lceil>x\<rceil>)
      in if - (2 ^ 63) \<le> t \<and> t < 2 ^ 63 then word_of_int t else word_of_int (- (2 ^ 63)))"

text \<open>\<open>CalculateLatency\<close>: \<open>float64(received.Sub(sent).Microseconds()) / 1000.0\<close>.\<close>

definition CalculateLatency :: "library \<Rightarrow> string \<Rightarrow> string \<Rightarrow> parse_error + float64" where
  "CalculateLatency lib sendTime receiveTime =
     (case ParseTime lib sendTime of
        Inl err \<Rightarrow> Inl err
      | Inr sent \<Rightarrow>
          (case ParseTime lib receiveTime of
             Inl err \<Rightarrow> Inl err
           | Inr received \<Rightarrow>
               Inr (float64_div (float64_of_int64 (Microseconds (time_Sub received sent))) 1000)))"

section \<open>Message processor (recipient/internal/processor)\<close>

record ProcessorStats =
  MessagesReceived :: int64
  MessagesProcessed :: int64
  MessagesValid :: int64
  MessagesInvalid :: int64
  ChecksumErrors :: int64
  ProcessingErrors :: int64
  TotalBytesReceived :: int64
  LastMessageTime :: "int option"
  FirstMessageTime :: "int option"
  MinLatency :: int64
  MaxLatency :: int64
  TotalLatency :: int64

record MessageProcessor =
  stats :: ProcessorStats
  logged :: "log_entry list"

definition NewProcessorStats :: ProcessorStats where
  "NewProcessorStats =
     \<lparr>MessagesReceived = 0, MessagesProcessed = 0, MessagesValid = 0, MessagesInvalid = 0,
      ChecksumErrors = 0, ProcessingErrors = 0, TotalBytesReceived = 0,
      LastMessageTime = None, FirstMessageTime = None,
      MinLatency = 0, MaxLatency = 0, TotalLatency = 0\<rparr>"

definition NewMessageProcessor :: MessageProcessor where
  "NewMessageProcessor = \<lparr>stats = NewProcessorStats, logged = []\<rparr>"

text \<open>
  \<open>updateMinMaxLatency\<close>. Each of its two loops retries only when another goroutine
  changed the field between \<open>Load\<close> and \<open>CompareAndSwap\<close>; in a call that runs alone
  the swap succeeds and the loop body runs once. The comparisons are signed.
\<close>

definition updateMinMaxLatency :: "int64 \<Rightarrow> ProcessorStats \<Rightarrow> ProcessorStats" where
  "updateMinMaxLatency latencyMicros st =
     (let oldMin = MinLatency st;
          st1 = (if oldMin = 0 \<or> sint latencyMicros < sint oldMin
                 then st\<lparr>MinLatency := latencyMicros\<rparr> else st);
          oldMax = MaxLatency st1
      in if sint latencyMicros > sint oldMax then st1\<lparr>MaxLatency := latencyMicros\<rparr> else st1)"

text \<open>\<open>logMessage\<close>: the line "message received" with its fields.\<close>

definition logMessage :: "Message \<Rightarrow> string \<Rightarrow> nat \<Rightarrow> bool \<Rightarrow> log_entry" where
  "logMessage message receiveTime messageSize checksumValid =
     (InfoLevel,
      [zap_Int ''message_id'' (MessageID message),
       zap_String ''send_time'' (SendTime message),
       zap_String ''receive_time'' receiveTime,
       zap_String ''checksum'' (Checksum message),
       zap_Bool ''checksum_valid'' checksumValid,
       zap_Int ''message_size'' (int messageSize)]
      @ (if \<not> checksumValid then [zap_String ''error'' ''Checksum mismatch''] else []))"

text \<open>
  \<open>ProcessMessage\<close>. \<open>startTime\<close> and \<open>receiveTime\<close> are the two clock readings taken
  on entry (\<open>time.Now()\<close> and \<open>utils.GetCurrentTime()\<close>). \<open>json.Marshal\<close> does not
  fail on a \<open>*Message\<close>, so that error return is not a branch. For a nil message
  \<open>ValidateMessage\<close> returns an error, and logging it reads \<open>message.MessageID\<close>:
  the call panics. The warning about a slow call depends on elapsed wall-clock time and
  is left out.
\<close>

definition ProcessMessage ::
  "library \<Rightarrow> int \<Rightarrow> string \<Rightarrow> Message option \<Rightarrow> MessageProcessor \<Rightarrow> panic + MessageProcessor" where
  "ProcessMessage lib startTime receiveTime message p =
     (let s1 = (stats p)\<lparr>MessagesReceived := MessagesReceived (stats p) + 1\<rparr>;
          s2 = (if MessagesReceived s1 = 1 then s1\<lparr>FirstMessageTime := Some startTime\<rparr> else s1);
          s3 = s2\<lparr>LastMessageTime := Some startTime\<rparr>;
          messageSize = length (json_Marshal_Message lib message);
          s4 = s3\<lparr>TotalBytesReceived := TotalBytesReceived s3 + word_of_nat messageSize\<rparr>;
          (isValid, err, debug) = ValidateMessage lib message
      in case message of
           None \<Rightarrow> Inl NilDereference
         | Some msg \<Rightarrow>
             let (s5, log1) =
                   (case err of
                      Some e \<Rightarrow> (s4\<lparr>ProcessingErrors := ProcessingErrors s4 + 1\<rparr>,
                                 [(ErrorLevel,
                                   [zap_Int ''message_id'' (MessageID msg), zap_Error e])])
                    | None \<Rightarrow> (s4, []));
                 (s6, log2) =
                   (if \<not> isValid
                    then (s5\<lparr>MessagesInvalid := MessagesInvalid s5 + 1,
                              ChecksumErrors := ChecksumErrors s5 + 1\<rparr>,
                          [logMessage msg receiveTime messageSize False,
                           (WarnLevel,
                            [zap_Int ''message_id'' (MessageID msg),
                             zap_String ''expected'' (Checksum msg),
                             zap_String ''actual''
                               (CalculateChecksumString lib (Payload msg))])])
                    else (s5\<lparr>MessagesValid := MessagesValid s5 + 1\<rparr>,
                          [logMessage msg receiveTime messageSize True]));
                 s7 =
                   (if SendTime msg \<noteq> []
                    then (case CalculateLatency lib (SendTime msg) receiveTime of
                            Inl e \<Rightarrow> s6
                          | Inr latency \<Rightarrow>
                              let latencyMicros = int64_of_float64 (float64_mul latency 1000)
                              in updateMinMaxLatency latencyMicros
                                   (s6\<lparr>TotalLatency := TotalLatency s6 + latencyMicros\<rparr>))
                    else s6);
                 s8 = s7\<lparr>MessagesProcessed := MessagesProcessed s7 + 1\<rparr>
             in Inr (p\<lparr>stats := s8, logged := logged p @ debug @ log1 @ log2\<rparr>))"

section \<open>Stream transport, client side (sender/internal/tcp)\<close>

text \<open>
  \<open>binary.BigEndian.PutUint32\<close> and \<open>binary.BigEndian.Uint32\<close> on four bytes, most
  significant byte first, by their values: byte \<open>i\<close> of \<open>v\<close> is \<open>v / 256^(3-i)\<close>
  modulo 256.
\<close>

definition PutUint32 :: "uint32 \<Rightarrow> byte list" where
  "PutUint32 v =
     [word_of_nat (unat v div 2 ^ 24), word_of_nat (unat v div 2 ^ 16),
      word_of_nat (unat v div 2 ^ 8), word_of_nat (unat v)]"

fun Uint32 :: "byte list \<Rightarrow> uint32" where
  "Uint32 [b0, b1, b2, b3] =
     word_of_nat (2 ^ 24 * unat b0 + 2 ^ 16 * unat b1 + 2 ^ 8 * unat b2 + unat b3)"
| "Uint32 _ = 0"

text \<open>
  The client: whether it holds a connection, and the bytes it has written to it.
  \<open>dial\<close> tells whether \<open>reconnect\<close> obtains a connection; writes to an open
  connection succeed, so that a call that reaches them returns nil.

  \<open>Send\<close> and \<open>SendBatch\<close> lock the client's mutex and defer its \<open>Unlock\<close>.
  Without a connection they unlock the mutex by hand and call \<open>reconnect\<close>; when
  that fails they return at once, the mutex still unlocked, and the deferred
  \<open>Unlock\<close> ends the process with Go's fatal error \<open>unlock of unlocked mutex\<close>.
\<close>

record TCPClient =
  isConnected :: bool
  written :: "byte list"

datatype fatal = UnlockOfUnlockedMutex

definition Send :: "library \<Rightarrow> bool \<Rightarrow> Message \<Rightarrow> TCPClient \<Rightarrow> fatal + TCPClient" where
  "Send lib dial message c =
     (if \<not> isConnected c \<and> \<not> dial then Inl UnlockOfUnlockedMutex
      else
        let data = json_Marshal_Message lib (Some message);
            len = (word_of_nat (length data) :: uint32);
            lengthBytes = PutUint32 len
        in Inr (c\<lparr>isConnected := True, written := written c @ lengthBytes @ data\<rparr>))"

definition SendBatch ::
  "library \<Rightarrow> bool \<Rightarrow> string \<Rightarrow> Message list \<Rightarrow> TCPClient \<Rightarrow> fatal + TCPClient" where
  "SendBatch lib dial now messages c =
     (let batch = \<lparr>Messages = map Some messages, BTimestamp = now,
                    Count = int (length messages)\<rparr>
      in if \<not> isConnected c \<and> \<not> dial then Inl UnlockOfUnlockedMutex
         else
           let data = json_Marshal_Batch lib batch;
               len = (word_of_nat (length data) :: uint32);
               header = 1 # PutUint32 len
           in Inr (c\<lparr>isConnected := True, written := written c @ header @ data\<rparr>))"

section \<open>Stream transport, server side (recipient/internal/tcp)\<close>

text \<open>
  A connection delivers a finite sequence of bytes and is then closed by the peer.
  \<open>io.ReadFull\<close> of \<open>n\<close> bytes gives them and the rest of the stream, or fails when
  the stream ends first (\<open>EOF\<close> when nothing was left, \<open>ErrUnexpectedEOF\<close> otherwise),
  having consumed what was there.
\<close>

datatype io_error = EOF | ErrUnexpectedEOF

definition ReadFull :: "nat \<Rightarrow> byte list \<Rightarrow> (io_error + byte list) \<times> byte list" where
  "ReadFull n bs =
     (if length bs < n then (Inl (if bs = [] then EOF else ErrUnexpectedEOF), [])
      else (Inr (take n bs), drop n bs))"

record ServerStats =
  ConnectionsTotal :: int64
  ConnectionsActive :: int64
  ServerMessagesReceived :: int64
  BatchesReceived :: int64
  BytesReceived :: int64
  Errors :: int64
  ServerLastMessageTime :: "int option"

text \<open>The clock of the recipient: the \<open>k\<close>-th reading of \<open>time.Now()\<close>, and of
  \<open>utils.GetCurrentTime()\<close>, its formatted form.\<close>

record recv_clock =
  time_Now :: "nat \<Rightarrow> int"
  GetCurrentTime :: "nat \<Rightarrow> string"

text \<open>The server: its statistics, its processor, and the number of clock readings
  taken so far.\<close>

record TCPServer =
  serverStats :: ServerStats
  processor :: MessageProcessor
  tick :: nat

definition NewTCPServer :: TCPServer where
  "NewTCPServer =
     \<lparr>serverStats = \<lparr>ConnectionsTotal = 0, ConnectionsActive = 0, ServerMessagesReceived = 0,
                      BatchesReceived = 0, BytesReceived = 0, Errors = 0,
                      ServerLastMessageTime = None\<rparr>,
      processor = NewMessageProcessor, tick = 0\<rparr>"

definition incrementConnectionCount :: "TCPServer \<Rightarrow> TCPServer" where
  "incrementConnectionCount srv =
     srv\<lparr>serverStats := (serverStats srv)
            \<lparr>ConnectionsTotal := ConnectionsTotal (serverStats srv) + 1,
             ConnectionsActive := ConnectionsActive (serverStats srv) + 1\<rparr>\<rparr>"

definition decrementConnectionCount :: "TCPServer \<Rightarrow> TCPServer" where
  "decrementConnectionCount srv =
     srv\<lparr>serverStats := (serverStats srv)
            \<lparr>ConnectionsActive := ConnectionsActive (serverStats srv) - 1\<rparr>\<rparr>"

definition incrementMessageCount :: "recv_clock \<Rightarrow> int64 \<Rightarrow> TCPServer \<Rightarrow> TCPServer" where
  "incrementMessageCount clk bytes srv =
     srv\<lparr>serverStats := (serverStats srv)
            \<lparr>ServerMessagesReceived := ServerMessagesReceived (serverStats srv) + 1,
             BytesReceived := BytesReceived (serverStats srv) + bytes,
             ServerLastMessageTime := Some (time_Now clk (tick srv))\<rparr>,
         tick := tick srv + 1\<rparr>"

definition incrementBatchCount :: "recv_clock \<Rightarrow> int64 \<Rightarrow> nat \<Rightarrow> TCPServer \<Rightarrow> TCPServer" where
  "incrementBatchCount clk bytes messages srv =
     srv\<lparr>serverStats := (serverStats srv)
            \<lparr>BatchesReceived := BatchesReceived (serverStats srv) + 1,
             ServerMessagesReceived :=
               ServerMessagesReceived (serverStats srv) + word_of_nat messages,
             BytesReceived := BytesReceived (serverStats srv) + bytes,
             ServerLastMessageTime := Some (time_Now clk (tick srv))\<rparr>,
         tick := tick srv + 1\<rparr>"

definition incrementErrorCount :: "TCPServer \<Rightarrow> TCPServer" where
  "incrementErrorCount srv =
     srv\<lparr>serverStats := (serverStats srv)\<lparr>Errors := Errors (serverStats srv) + 1\<rparr>\<rparr>"

text \<open>The server's call of \<open>ProcessMessage\<close>, with one clock reading.\<close>

definition serverProcess ::
  "library \<Rightarrow> recv_clock \<Rightarrow> Message option \<Rightarrow> TCPServer \<Rightarrow> panic + TCPServer" where
  "serverProcess lib clk message srv =
     (case ProcessMessage lib (time_Now clk (tick srv)) (GetCurrentTime clk (tick srv)) message
             (processor srv) of
        Inl p \<Rightarrow> Inl p
      | Inr proc \<Rightarrow> Inr (srv\<lparr>processor := proc, tick := tick srv + 1\<rparr>))"

text \<open>The errors the two frame handlers return.\<close>

datatype frame_error =
    ReadLengthFailed io_error
  | FrameTooLarge uint32
  | ReadBodyFailed io_error
  | UnmarshalFailed

text \<open>\<open>handleMessage\<close>: the error it returns (if any), the rest of the stream, the
  server afterwards.\<close>

definition handleMessage ::
  "library \<Rightarrow> recv_clock \<Rightarrow> byte list \<Rightarrow> TCPServer
     \<Rightarrow> panic + (frame_error option \<times> byte list \<times> TCPServer)" where
  "handleMessage lib clk bs srv =
     (case ReadFull 4 bs of
        (Inl e, bs1) \<Rightarrow> Inr (Some (ReadLengthFailed e), bs1, srv)
      | (Inr lengthBytes, bs1) \<Rightarrow>
          let len = Uint32 lengthBytes
          in if len > 100 * 1024 * 1024 then Inr (Some (FrameTooLarge len), bs1, srv)
             else
               (case ReadFull (unat len) bs1 of
                  (Inl e, bs2) \<Rightarrow> Inr (Some (ReadBodyFailed e), bs2, srv)
                | (Inr messageBytes, bs2) \<Rightarrow>
                    (case json_Unmarshal_Message lib messageBytes of
                       None \<Rightarrow> Inr (Some UnmarshalFailed, bs2, srv)
                     | Some message \<Rightarrow>
                         (case serverProcess lib clk (Some message) srv of
                            Inl p \<Rightarrow> Inl p
                          | Inr srv1 \<Rightarrow>
                              Inr (None, bs2, incrementMessageCount clk (ucast len) srv1)))))"

text \<open>The loop \<open>for _, message := range batch.Messages\<close> of \<open>handleBatch\<close>.\<close>

fun processBatchMessages ::
  "library \<Rightarrow> recv_clock \<Rightarrow> Message option list \<Rightarrow> TCPServer \<Rightarrow> panic + TCPServer" where
  "processBatchMessages lib clk [] srv = Inr srv"
| "processBatchMessages lib clk (message # rest) srv =
     (case serverProcess lib clk message srv of
        Inl p \<Rightarrow> Inl p
      | Inr srv1 \<Rightarrow> processBatchMessages lib clk rest srv1)"

definition handleBatch ::
  "library \<Rightarrow> recv_clock \<Rightarrow> byte list \<Rightarrow> TCPServer
     \<Rightarrow> panic + (frame_error option \<times> byte list \<times> TCPServer)" where
  "handleBatch lib clk bs srv =
     (case ReadFull 4 bs of
        (Inl e, bs1) \<Rightarrow> Inr (Some (ReadLengthFailed e), bs1, srv)
      | (Inr lengthBytes, bs1) \<Rightarrow>
          let len = Uint32 lengthBytes
          in if len > 100 * 1024 * 1024 then Inr (Some (FrameTooLarge len), bs1, srv)
             else
               (case ReadFull (unat len) bs1 of
                  (Inl e, bs2) \<Rightarrow> Inr (Some (ReadBodyFailed e), bs2, srv)
                | (Inr batchBytes, bs2) \<Rightarrow>
                    (case json_Unmarshal_Batch lib batchBytes of
                       None \<Rightarrow> Inr (Some UnmarshalFailed, bs2, srv)
                     | Some batch \<Rightarrow>
                         (case processBatchMessages lib clk (Messages batch) srv of
                            Inl p \<Rightarrow> Inl p
                          | Inr srv1 \<Rightarrow>
                              Inr (None, bs2,
                                   incrementBatchCount clk (ucast len)
                                     (length (Messages batch)) srv1)))))"

lemma ReadFull_rest: "length (snd (ReadFull n bs)) \<le> length bs"
  by (simp add: ReadFull_def)

lemma ReadFull_4_rest: "bs \<noteq> [] \<Longrightarrow> length (snd (ReadFull 4 bs)) < length bs"
  by (cases bs) (auto simp: ReadFull_def)

lemma handleMessage_rest:
  assumes "handleMessage lib clk bs srv = Inr (err, bs', srv')" and "bs \<noteq> []"
  shows "length bs' < length bs"
proof -
  obtain r1 bs1 where r1: "ReadFull 4 bs = (r1, bs1)" by (cases "ReadFull 4 bs")
  have l1: "length bs1 < length bs" using ReadFull_4_rest [OF assms(2)] r1 by simp
  show ?thesis
  proof (cases r1)
    case (Inl e)
    then show ?thesis using assms(1) r1 l1 by (simp add: handleMessage_def)
  next
    case (Inr lengthBytes)
    obtain r2 bs2 where r2: "ReadFull (unat (Uint32 lengthBytes)) bs1 = (r2, bs2)"
      by (cases "ReadFull (unat (Uint32 lengthBytes)) bs1")
    have l2: "length bs2 \<le> length bs1" using ReadFull_rest [of "unat (Uint32 lengthBytes)" bs1] r2 by simp
    show ?thesis
      using assms(1) r1 Inr r2 l1 l2
      by (auto simp: handleMessage_def Let_def split: if_splits sum.splits option.splits)
  qed
qed

lemma handleBatch_rest:
  assumes "handleBatch lib clk bs srv = Inr (err, bs', srv')"
  shows "length bs' \<le> length bs"
proof -
  obtain r1 bs1 where r1: "ReadFull 4 bs = (r1, bs1)" by (cases "ReadFull 4 bs")
  have l1: "length bs1 \<le> length bs" using ReadFull_rest [of 4 bs] r1 by simp
  show ?thesis
  proof (cases r1)
    case (Inl e)
    then show ?thesis using assms(1) r1 l1 by (simp add: handleBatch_def)
  next
    case (Inr lengthBytes)
    obtain r2 bs2 where r2: "ReadFull (unat (Uint32 lengthBytes)) bs1 = (r2, bs2)"
      by (cases "ReadFull (unat (Uint32 lengthBytes)) bs1")
    have l2: "length bs2 \<le> length bs1" using ReadFull_rest [of "unat (Uint32 lengthBytes)" bs1] r2 by simp
    show ?thesis
      using assms(1) r1 Inr r2 l1 l2
      by (auto simp: handleBatch_def Let_def split: if_splits sum.splits option.splits)
  qed
qed

text \<open>
  The reader loop of \<open>handleConnection\<close>. \<open>ReadByte\<close> on the exhausted stream gives
  \<open>io.EOF\<close> and the loop returns. A first byte \<open>0x01\<close> starts a batch, \<open>0x00\<close> is
  skipped, any other byte is put back and \<open>handleMessage\<close> reads from it. An error a
  handler returns is logged and counted, and the loop goes on. Read timeouts (after
  which the loop reads again), other read errors and the stop channel are not part of
  the model.
\<close>

function handleConnection_loop ::
  "library \<Rightarrow> recv_clock \<Rightarrow> byte list \<Rightarrow> TCPServer \<Rightarrow> panic + TCPServer" where
  "handleConnection_loop lib clk [] srv = Inr srv"
| "handleConnection_loop lib clk (firstByte # rest) srv =
     (if firstByte = 1 then
        (case handleBatch lib clk rest srv of
           Inl p \<Rightarrow> Inl p
         | Inr (err, rest', srv') \<Rightarrow>
             handleConnection_loop lib clk rest'
               (if err \<noteq> None then incrementErrorCount srv' else srv'))
      else if firstByte = 0 then handleConnection_loop lib clk rest srv
      else
        (case handleMessage lib clk (firstByte # rest) srv of
           Inl p \<Rightarrow> Inl p
         | Inr (err, rest', srv') \<Rightarrow>
             handleConnection_loop lib clk rest'
               (if err \<noteq> None then incrementErrorCount srv' else srv')))"
  by pat_completeness auto
termination
proof (relation "measure (\<lambda>(lib, clk, bs, srv). length bs)", goal_cases)
  case 1
  show ?case by simp
next
  case (2 lib clk firstByte rest srv x2 err y rest' srv')
  then show ?case using handleBatch_rest [of lib clk rest srv err rest' srv'] by simp
next
  case (3 lib clk firstByte rest srv)
  show ?case by simp
next
  case (4 lib clk firstByte rest srv x2 err y rest' srv')
  then show ?case
    using handleMessage_rest [of lib clk "firstByte # rest" srv err rest' srv'] by simp
qed

text \<open>\<open>handleConnection\<close>: the loop, then the deferred \<open>decrementConnectionCount\<close>.\<close>

definition handleConnection ::
  "library \<Rightarrow> recv_clock \<Rightarrow> byte list \<Rightarrow> TCPServer \<Rightarrow> panic + TCPServer" where
  "handleConnection lib clk bs srv =
     (case handleConnection_loop lib clk bs srv of
        Inl p \<Rightarrow> Inl p
      | Inr srv' \<Rightarrow> Inr (decrementConnectionCount srv'))"

section \<open>Control surface (sender/internal/api)\<close>

text \<open>The request bodies, with the fields of the Go structs prefixed by \<open>b\<close>, \<open>s\<close>
  and \<open>l\<close>.\<close>

record BatchTestRequest =
  bProtocol :: TestProtocol
  bThreadCount :: int
  bPacketSize :: int
  bTotalMessages :: int
  bDuration :: int

record StreamTestRequest =
  sProtocol :: TestProtocol
  sMessagesPerSec :: int
  sPacketSize :: int
  sDuration :: int

record LargeTestRequest =
  lProtocol :: TestProtocol
  lThreadCount :: int
  lPacketSizeMB :: int
  lDuration :: int

text \<open>
  \<open>c.ShouldBindJSON(&req)\<close>: the body is decoded (\<open>None\<close> when it is not JSON of the
  right shape) and then checked against the \<open>binding\<close> tags of the struct.
\<close>

definition oneof_mqtt_tcp :: "TestProtocol \<Rightarrow> bool" where
  "oneof_mqtt_tcp p = (p = [] \<or> p = ''mqtt'' \<or> p = ''tcp'')"

definition bindBatchTestRequest :: "BatchTestRequest option \<Rightarrow> BatchTestRequest option" where
  "bindBatchTestRequest body =
     (case body of
        None \<Rightarrow> None
      | Some req \<Rightarrow>
          if oneof_mqtt_tcp (bProtocol req)
             \<and> 1 \<le> bThreadCount req \<and> bThreadCount req \<le> 1000
             \<and> 100 \<le> bPacketSize req \<and> 1 \<le> bTotalMessages req \<and> 1 \<le> bDuration req
          then Some req else None)"

definition bindStreamTestRequest :: "StreamTestRequest option \<Rightarrow> StreamTestRequest option" where
  "bindStreamTestRequest body =
     (case body of
        None \<Rightarrow> None
      | Some req \<Rightarrow>
          if oneof_mqtt_tcp (sProtocol req)
             \<and> 1 \<le> sMessagesPerSec req \<and> sMessagesPerSec req \<le> 100000
             \<and> 100 \<le> sPacketSize req \<and> 1 \<le> sDuration req
          then Some req else None)"

definition bindLargeTestRequest :: "LargeTestRequest option \<Rightarrow> LargeTestRequest option" where
  "bindLargeTestRequest body =
     (case body of
        None \<Rightarrow> None
      | Some req \<Rightarrow>
          if oneof_mqtt_tcp (lProtocol req)
             \<and> 1 \<le> lThreadCount req \<and> lThreadCount req \<le> 100
             \<and> 1 \<le> lPacketSizeMB req \<and> lPacketSizeMB req \<le> 1000 \<and> 1 \<le> lDuration req
          then Some req else None)"

datatype http_status = StatusOK | StatusBadRequest | StatusConflict | StatusInternalServerError

text \<open>
  The state of the control surface: \<open>currentTest\<close> and \<open>isTestActive\<close> of the \<open>API\<close>;
  of its test manager, the test that \<open>currentTest\<close> points to (given by its
  configuration) and the state of \<open>stopChan\<close>; and the goroutines that the start
  handlers have launched and whose run has not returned, in the order of their launch.
  A goroutine has entered when its run (\<open>RunBatchTest\<close>, \<open>RunStreamTest\<close> or
  \<open>RunLargeTest\<close>) has made its test the manager's current one.
\<close>

datatype channel = NilChan | OpenChan | ClosedChan

record goroutine =
  gConfig :: TestConfig
  gEntered :: bool

record API =
  currentTest :: "TestConfig option"
  isTestActive :: bool
  managerTest :: "TestConfig option"
  stopChan :: channel
  running :: "goroutine list"

definition NewAPI :: API where
  "NewAPI =
     \<lparr>currentTest = None, isTestActive = False, managerTest = None, stopChan = NilChan,
      running = []\<rparr>"

definition defaultProtocol :: "TestConfig \<Rightarrow> TestConfig" where
  "defaultProtocol config =
     (if Protocol config = [] then config\<lparr>Protocol := ProtocolMQTT\<rparr> else config)"

text \<open>The end of a start handler: \<open>currentTest\<close> and \<open>isTestActive\<close> are set and the
  goroutine of the run is launched.\<close>

definition launch :: "TestConfig \<Rightarrow> API \<Rightarrow> API" where
  "launch config api =
     api\<lparr>currentTest := Some config, isTestActive := True,
         running := running api @ [\<lparr>gConfig = config, gEntered = False\<rparr>]\<rparr>"

definition startBatchTest :: "BatchTestRequest option \<Rightarrow> API \<Rightarrow> http_status \<times> API" where
  "startBatchTest body api =
     (case bindBatchTestRequest body of
        None \<Rightarrow> (StatusBadRequest, api)
      | Some req \<Rightarrow>
          if isTestActive api then (StatusConflict, api)
          else
            let config = defaultProtocol
                  \<lparr>Type = TestTypeBatch, Protocol = bProtocol req,
                   ThreadCount = bThreadCount req, PacketSize = bPacketSize req,
                   MessagesPerSec = 0, Duration = bDuration req,
                   TotalMessages = bTotalMessages req\<rparr>
            in (StatusOK, launch config api))"

definition startStreamTest :: "StreamTestRequest option \<Rightarrow> API \<Rightarrow> http_status \<times> API" where
  "startStreamTest body api =
     (case bindStreamTestRequest body of
        None \<Rightarrow> (StatusBadRequest, api)
      | Some req \<Rightarrow>
          if isTestActive api then (StatusConflict, api)
          else
            let config = defaultProtocol
                  \<lparr>Type = TestTypeStream, Protocol = sProtocol req,
                   ThreadCount = 1, PacketSize = sPacketSize req,
                   MessagesPerSec = sMessagesPerSec req, Duration = sDuration req,
                   TotalMessages = 0\<rparr>
            in (StatusOK, launch config api))"

definition startLargeTest :: "LargeTestRequest option \<Rightarrow> API \<Rightarrow> http_status \<times> API" where
  "startLargeTest body api =
     (case bindLargeTestRequest body of
        None \<Rightarrow> (StatusBadRequest, api)
      | Some req \<Rightarrow>
          if isTestActive api then (StatusConflict, api)
          else
            let config = defaultProtocol
                  \<lparr>Type = TestTypeLarge, Protocol = lProtocol req,
                   ThreadCount = lThreadCount req,
                   PacketSize = lPacketSizeMB req * 1024 * 1024,
                   MessagesPerSec = 0, Duration = lDuration req,
                   TotalMessages = 0\<rparr>
            in (StatusOK, launch config api))"

text \<open>
  The first part of a run (manager.go lines 84-87, 242-245 and 335-338): the goroutine
  at index \<open>i\<close> makes its test the manager's current one and gives the manager a new
  stop channel.
\<close>

definition runEnters :: "nat \<Rightarrow> API \<Rightarrow> API" where
  "runEnters i api =
     (if i < length (running api) \<and> \<not> gEntered (running api ! i)
      then api\<lparr>managerTest := Some (gConfig (running api ! i)), stopChan := OpenChan,
               running := (running api)[i := (running api ! i)\<lparr>gEntered := True\<rparr>]\<rparr>
      else api)"

text \<open>
  The end of a run: the run of the goroutine at index \<open>i\<close> returns (its messages are
  sent, its deadline is reached, it has observed a stop, or it obtained no connection),
  and the function the goroutine deferred clears \<open>isTestActive\<close>.
\<close>

definition runReturns :: "nat \<Rightarrow> API \<Rightarrow> API" where
  "runReturns i api =
     (if i < length (running api)
      then api\<lparr>isTestActive := False,
               running := take i (running api) @ drop (Suc i) (running api)\<rparr>
      else api)"

text \<open>
  \<open>StopCurrentTest\<close>: an error when the manager has no current test; otherwise it
  closes the stop channel, which panics unless the channel is open, and cancels the
  context of the current test (on which the workers of that test stop; the contexts are
  not part of the state).
\<close>

datatype stop_failure = NoCurrentTest | CloseOfNilChannel | CloseOfClosedChannel

definition StopCurrentTest :: "API \<Rightarrow> stop_failure + API" where
  "StopCurrentTest api =
     (case managerTest api of
        None \<Rightarrow> Inl NoCurrentTest
      | Some t \<Rightarrow>
          (case stopChan api of
             NilChan \<Rightarrow> Inl CloseOfNilChannel
           | ClosedChan \<Rightarrow> Inl CloseOfClosedChannel
           | OpenChan \<Rightarrow> Inr (api\<lparr>stopChan := ClosedChan\<rparr>)))"

text \<open>\<open>stopTest\<close>. The error of \<open>StopCurrentTest\<close> is answered with status 500, and so
  is a panic, which the router's \<open>gin.Recovery\<close> catches.\<close>

definition stopTest :: "API \<Rightarrow> http_status \<times> API" where
  "stopTest api =
     (if \<not> isTestActive api then (StatusBadRequest, api)
      else
        (case StopCurrentTest api of
           Inl e \<Rightarrow> (StatusInternalServerError, api)
         | Inr api' \<Rightarrow> (StatusOK, api'\<lparr>isTestActive := False\<rparr>)))"

section \<open>Sequences of calls\<close>

text \<open>A sequence of calls of \<open>updateMinMaxLatency\<close>, one after the other, with the
  latencies \<open>xs\<close>.\<close>

definition updateMinMaxLatency_calls :: "int64 list \<Rightarrow> ProcessorStats \<Rightarrow> ProcessorStats" where
  "updateMinMaxLatency_calls xs st = foldl (\<lambda>st x. updateMinMaxLatency x st) st xs"

text \<open>
  The envelopes of a process are built at three places of the load driver, each with one
  \<open>messageIDGen.Add(1)\<close>. The additions of concurrent workers are atomic, so they
  happen in some order; a \<open>creation list\<close> gives that order, with the arguments each
  place has at that moment, whatever the mode and the transport of the run. A panic
  ends the process.
\<close>

datatype creation =
    BatchCreate "Data list" nat string
  | StreamCreate "Data list" nat string
  | LargeCreate "Data list" string string

fun create :: "library \<Rightarrow> creation \<Rightarrow> Manager \<Rightarrow> panic + (Message \<times> Manager)" where
  "create lib (BatchCreate data dataIndex now) m = batchMessage lib data dataIndex now m"
| "create lib (StreamCreate data dataIndex now) m = streamMessage lib data dataIndex now m"
| "create lib (LargeCreate data now1 now2) m = Inr (largeMessage lib data now1 now2 m)"

fun createAll :: "library \<Rightarrow> creation list \<Rightarrow> Manager \<Rightarrow> Message list" where
  "createAll lib [] m = []"
| "createAll lib (c # cs) m =
     (case create lib c m of
        Inl p \<Rightarrow> []
      | Inr (msg, m') \<Rightarrow> msg # createAll lib cs m')"

text \<open>A library whose batch decoder rewrites the \<open>count\<close> field by \<open>f\<close>.\<close>

definition recount :: "(int \<Rightarrow> int) \<Rightarrow> library \<Rightarrow> library" where
  "recount f lib =
     lib\<lparr>json_Unmarshal_Batch :=
           (\<lambda>bs. map_option (\<lambda>b. b\<lparr>Count := f (Count b)\<rparr>) (json_Unmarshal_Batch lib bs))\<rparr>"

section \<open>Example values\<close>

text \<open>
  A concrete library for the closed theorems below. Its JSON encoder writes the fields
  in the order of the struct, as \<open>encoding/json\<close> does, and escapes the quote and the
  backslash; it agrees with Go on strings of printable ASCII without \<open><\<close>, \<open>>\<close> and
  \<open>&\<close>, which is all it is applied to. The digests and the parsed times are those of
  SHA-256 and of RFC 3339 on the strings listed; the decoders know the example frames.
\<close>

definition example_escape :: "string \<Rightarrow> string" where
  "example_escape s =
     concat (map (\<lambda>c. if c = CHR 0x22 \<or> c = CHR 0x5C then [CHR 0x5C, c] else [c]) s)"

definition example_json_string :: "string \<Rightarrow> string" where
  "example_json_string s = [CHR 0x22] @ example_escape s @ [CHR 0x22]"

fun example_decimal :: "nat \<Rightarrow> string" where
  "example_decimal n =
     (if n < 10 then [''0123456789'' ! n]
      else example_decimal (n div 10) @ [''0123456789'' ! (n mod 10)])"

definition example_json_int :: "int \<Rightarrow> string" where
  "example_json_int i =
     (if i < 0 then CHR ''-'' # example_decimal (nat (- i)) else example_decimal (nat i))"

definition example_json_Data :: "Data \<Rightarrow> string" where
  \<open>example_json_Data d =
     ''{"id":'' @ example_json_int (ID d)
     @ '',"timestamp":'' @ example_json_string (DTimestamp d)
     @ '',"indicator_id":'' @ example_json_int (IndicatorID d)
     @ '',"indicator_value":'' @ example_json_string (IndicatorValue d)
     @ '',"equipment_id":'' @ example_json_int (EquipmentID d) @ ''}''\<close>

fun example_join :: "string list \<Rightarrow> string" where
  "example_join [] = []"
| "example_join [x] = x"
| "example_join (x # y # ys) = x @ CHR '','' # example_join (y # ys)"

definition example_json_DataList :: "Data list \<Rightarrow> string" where
  "example_json_DataList ds = CHR ''['' # example_join (map example_json_Data ds) @ '']''"

definition example_json_Message :: "Message option \<Rightarrow> string" where
  \<open>example_json_Message message =
     (case message of
        None \<Rightarrow> ''null''
      | Some m \<Rightarrow>
          ''{"send_time":'' @ example_json_string (SendTime m)
          @ '',"message_id":'' @ example_json_int (MessageID m)
          @ '',"timestamp":'' @ example_json_string (Timestamp m)
          @ '',"payload":'' @ example_json_string (Payload m)
          @ '',"checksum":'' @ example_json_string (Checksum m) @ ''}'')\<close>

definition example_json_Batch :: "MessageBatch \<Rightarrow> string" where
  \<open>example_json_Batch b =
     ''{"messages":['' @ example_join (map example_json_Message (Messages b))
     @ ''],"timestamp":'' @ example_json_string (BTimestamp b)
     @ '',"count":'' @ example_json_int (Count b) @ ''}''\<close>

text \<open>\<open>[]byte(s)\<close>.\<close>

definition bytes_of :: "string \<Rightarrow> byte list" where
  "bytes_of s = map (\<lambda>c. word_of_nat (of_char c)) s"

definition example_record1 :: Data where
  "example_record1 =
     \<lparr>ID = 1, DTimestamp = ''2024-01-20T15:30:45Z'', IndicatorID = 100,
      IndicatorValue = ''abcdefghijklmno'', EquipmentID = 10\<rparr>"

definition example_record2 :: Data where
  "example_record2 =
     \<lparr>ID = 2, DTimestamp = ''2024-01-20T15:30:46Z'', IndicatorID = 200,
      IndicatorValue = ''ABCDEFGHIJKLMNO'', EquipmentID = 20\<rparr>"

definition example_payload1 :: string where
  \<open>example_payload1 =
     ''{"id":1,"timestamp":"2024-01-20T15:30:45Z","indicator_id":100,''
     @ ''"indicator_value":"abcdefghijklmno","equipment_id":10}''\<close>

definition example_payload2 :: string where
  \<open>example_payload2 =
     ''{"id":2,"timestamp":"2024-01-20T15:30:46Z","indicator_id":200,''
     @ ''"indicator_value":"ABCDEFGHIJKLMNO","equipment_id":20}''\<close>

definition example_digest1 :: string where
  "example_digest1 = ''b77d43ab4919b487b694a201a20e1f3ab82cd9ab21283f433abde1e2efbbe0c5''"

definition example_digest2 :: string where
  "example_digest2 = ''da3ef6730d164b4161ccef6c978507f94023b135f4d7c5acdda8d43f99132005''"

text \<open>The first payload with one byte changed (the \<open>m\<close> of the indicator value is
  \<open>Q\<close>), and its digest.\<close>

definition example_payload_flipped :: string where
  \<open>example_payload_flipped =
     ''{"id":1,"timestamp":"2024-01-20T15:30:45Z","indicator_id":100,''
     @ ''"indicator_value":"abcdefghijklQno","equipment_id":10}''\<close>

definition example_digest_flipped :: string where
  "example_digest_flipped = ''b79d16d442b739baef3adce5e1374d327a56bc4044ef29e2b26dbf3497d498ed''"

definition example_sha256_hex :: "string \<Rightarrow> string" where
  "example_sha256_hex s =
     (if s = example_payload1 then example_digest1
      else if s = example_payload2 then example_digest2
      else if s = example_payload_flipped then example_digest_flipped
      else [])"

definition example_time_Parse :: "string \<Rightarrow> int option" where
  "example_time_Parse s =
     (if s = ''2024-01-20T15:31:00.5Z'' then Some 1705764660500000000
      else if s = ''2024-01-20T15:31:00.75Z'' then Some 1705764660750000000
      else if s = ''2024-01-20T15:30:55.5Z'' then Some 1705764655500000000
      else if s = ''2024-01-20T15:31:00.501005Z'' then Some 1705764660501005000
      else None)"

text \<open>The envelope the load driver builds first, in batch and in streaming mode, from
  the corpus of the two records at the clock reading \<open>15:31:00.5\<close>.\<close>

definition example_message :: Message where
  "example_message =
     \<lparr>SendTime = ''2024-01-20T15:31:00.5Z'', MessageID = 1,
      Timestamp = ''2024-01-20T15:30:46Z'',
      Payload = example_payload1, Checksum = example_digest1\<rparr>"

text \<open>That envelope with the payload byte changed after the checksum was computed,
  with its checksum cut short by one character, and with a send time that does not
  parse.\<close>

definition example_corrupted :: Message where
  "example_corrupted = example_message\<lparr>Payload := example_payload_flipped\<rparr>"

definition example_truncated :: Message where
  "example_truncated = example_message\<lparr>Checksum := butlast example_digest1\<rparr>"

definition example_undated :: Message where
  "example_undated = example_message\<lparr>SendTime := ''yesterday''\<rparr>"

text \<open>A batch of the first envelope whose \<open>count\<close> field says 7.\<close>

definition example_batch :: MessageBatch where
  "example_batch =
     \<lparr>Messages = [Some example_message], BTimestamp = ''2024-01-20T15:31:01Z'', Count = 7\<rparr>"

text \<open>A batch of the first envelope and a JSON \<open>null\<close>, which \<open>encoding/json\<close>
  decodes to a nil pointer.\<close>

definition example_batch_nil :: MessageBatch where
  "example_batch_nil =
     \<lparr>Messages = [Some example_message, None], BTimestamp = ''2024-01-20T15:31:01Z'',
      Count = 2\<rparr>"

definition example_library :: library where
  "example_library =
     \<lparr>json_Marshal_Data = example_json_Data,
      json_Marshal_DataList = example_json_DataList,
      json_Marshal_Message = (\<lambda>m. bytes_of (example_json_Message m)),
      json_Marshal_Batch = (\<lambda>b. bytes_of (example_json_Batch b)),
      json_Unmarshal_Message =
        (\<lambda>bs. if bs = bytes_of (example_json_Message (Some example_message))
              then Some example_message else None),
      json_Unmarshal_Batch =
        (\<lambda>bs. if bs = bytes_of (example_json_Batch example_batch)
              then Some example_batch
              else if bs = bytes_of (example_json_Batch example_batch_nil)
              then Some example_batch_nil else None),
      sha256_hex = example_sha256_hex,
      time_Parse = example_time_Parse\<rparr>"

text \<open>A recipient clock that reads \<open>15:31:00.75\<close>, and one that reads \<open>15:30:55.5\<close>,
  five seconds before the envelope's send time. (A third reading used below,
  \<open>15:31:00.501005\<close>, is 1005 microseconds after it.)\<close>

definition example_clock :: recv_clock where
  "example_clock =
     \<lparr>time_Now = (\<lambda>k. 1705764660750000000),
      GetCurrentTime = (\<lambda>k. ''2024-01-20T15:31:00.75Z'')\<rparr>"

definition example_clock_behind :: recv_clock where
  "example_clock_behind =
     \<lparr>time_Now = (\<lambda>k. 1705764655500000000),
      GetCurrentTime = (\<lambda>k. ''2024-01-20T15:30:55.5Z'')\<rparr>"

text \<open>The server as \<open>acceptConnections\<close> leaves it when it starts
  \<open>handleConnection\<close> for the first connection.\<close>

definition example_server :: TCPServer where
  "example_server = incrementConnectionCount NewTCPServer"

text \<open>Three request bodies that bind, one for each kind of test, and the
  configurations the handlers make of them.\<close>

definition example_batch_request :: BatchTestRequest where
  "example_batch_request =
     \<lparr>bProtocol = ''tcp'', bThreadCount = 4, bPacketSize = 1024, bTotalMessages = 1000,
      bDuration = 60\<rparr>"

definition example_stream_request :: StreamTestRequest where
  "example_stream_request =
     \<lparr>sProtocol = ''tcp'', sMessagesPerSec = 10, sPacketSize = 1024, sDuration = 60\<rparr>"

definition example_large_request :: LargeTestRequest where
  "example_large_request =
     \<lparr>lProtocol = [], lThreadCount = 1, lPacketSizeMB = 5, lDuration = 60\<rparr>"

definition example_batch_config :: TestConfig where
  "example_batch_config =
     \<lparr>Type = TestTypeBatch, Protocol = ''tcp'', ThreadCount = 4, PacketSize = 1024,
      MessagesPerSec = 0, Duration = 60, TotalMessages = 1000\<rparr>"

definition example_stream_config :: TestConfig where
  "example_stream_config =
     \<lparr>Type = TestTypeStream, Protocol = ''tcp'', ThreadCount = 1, PacketSize = 1024,
      MessagesPerSec = 10, Duration = 60, TotalMessages = 0\<rparr>"

definition example_large_config :: TestConfig where
  "example_large_config =
     \<lparr>Type = TestTypeLarge, Protocol = ''mqtt'', ThreadCount = 1, PacketSize = 5242880,
      MessagesPerSec = 0, Duration = 60, TotalMessages = 0\<rparr>"

text \<open>Four envelopes built in turn by a batch worker, the streaming loop, a
  large-payload worker and the batch worker again.\<close>

definition example_schedule :: "creation list" where
  "example_schedule =
     [BatchCreate [example_record1, example_record2] 0 ''2024-01-20T15:31:00.5Z'',
      StreamCreate [example_record1, example_record2] 0 ''2024-01-20T15:31:00.5Z'',
      LargeCreate [example_record1, example_record2] ''2024-01-20T15:31:00.5Z''
        ''2024-01-20T15:31:00.5Z'',
      BatchCreate [example_record1, example_record2] 1 ''2024-01-20T15:31:00.5Z'']"


section \<open>Auxiliary facts\<close>

lemma unat_byte_of_nat: "unat (word_of_nat n :: byte) = n mod 256"
  by (simp add: unat_of_nat)

lemma Uint32_unat:
  "unat (Uint32 [b0, b1, b2, b3]) = 2 ^ 24 * unat b0 + 2 ^ 16 * unat b1 + 2 ^ 8 * unat b2 + unat b3"
proof -
  have "unat b0 < 256" "unat b1 < 256" "unat b2 < 256" "unat b3 < 256"
    using unsigned_less [of b0, where ?'a = nat] unsigned_less [of b1, where ?'a = nat]
      unsigned_less [of b2, where ?'a = nat] unsigned_less [of b3, where ?'a = nat] by simp_all
  then have "2 ^ 24 * unat b0 + 2 ^ 16 * unat b1 + 2 ^ 8 * unat b2 + unat b3 < 2 ^ 32"
    by simp
  then have "(2 ^ 24 * unat b0 + 2 ^ 16 * unat b1 + 2 ^ 8 * unat b2 + unat b3) mod 2 ^ LENGTH(32)
      = 2 ^ 24 * unat b0 + 2 ^ 16 * unat b1 + 2 ^ 8 * unat b2 + unat b3"
    by simp
  then show ?thesis unfolding Uint32.simps unat_of_nat .
qed

lemma Uint32_large:
  assumes "7 \<le> b0"
  shows "Uint32 [b0, b1, b2, b3] > 100 * 1024 * 1024"
proof -
  have "7 \<le> unat b0" using assms by (simp add: word_le_nat_alt)
  then have "unat (Uint32 [b0, b1, b2, b3]) > 104857600"
    unfolding Uint32_unat by simp
  then show ?thesis by (simp add: word_less_nat_alt del: Uint32.simps)
qed

lemma Uint32_large_first:
  assumes "Uint32 [b0, b1, b2, b3] > 100 * 1024 * 1024"
  shows "b0 \<noteq> 0 \<and> b0 \<noteq> 1"
proof -
  have b: "unat b1 < 256" "unat b2 < 256" "unat b3 < 256"
    using unsigned_less [of b1, where ?'a = nat] unsigned_less [of b2, where ?'a = nat]
      unsigned_less [of b3, where ?'a = nat] by simp_all
  have "unat (Uint32 [b0, b1, b2, b3]) > 104857600"
    using assms by (simp add: word_less_nat_alt del: Uint32.simps)
  then have "2 \<le> unat b0" using b unfolding Uint32_unat by simp
  then show ?thesis by auto
qed

lemma sint_Suc: 
  assumes "sint (w :: int64) < 2 ^ 63 - 1" 
  shows "sint (w + 1) = sint w + 1"
proof -
  have "sint (w + 1) = signed_take_bit 63 (sint w + 1)"
    by (simp add: sint_word_ariths)
  moreover have "- (2 ^ 63) \<le> sint w" using sint_ge [of w] by simp
  ultimately show ?thesis using assms
    by (simp add: signed_take_bit_int_eq_self)
qed


lemma updateMinMaxLatency_counters [simp]:
  "MessagesReceived (updateMinMaxLatency l st) = MessagesReceived st"
  "MessagesProcessed (updateMinMaxLatency l st) = MessagesProcessed st"
  "MessagesValid (updateMinMaxLatency l st) = MessagesValid st"
  "MessagesInvalid (updateMinMaxLatency l st) = MessagesInvalid st"
  "ChecksumErrors (updateMinMaxLatency l st) = ChecksumErrors st"
  "ProcessingErrors (updateMinMaxLatency l st) = ProcessingErrors st"
  "TotalLatency (updateMinMaxLatency l st) = TotalLatency st"
  by (simp_all add: updateMinMaxLatency_def Let_def)

lemma ValidateMessage_mismatch:
  "CalculateChecksumString lib (Payload msg) \<noteq> Checksum msg
     \<Longrightarrow> fst (ValidateMessage lib (Some msg)) = False"
  by (simp add: ValidateMessage_def Let_def)

lemma ProcessMessage_Some:
  assumes "ValidateMessage lib (Some msg) = (isValid, err, debug)"
  shows "\<exists>p'. ProcessMessage lib startTime receiveTime (Some msg) p = Inr p'
       \<and> MessagesReceived (stats p') = MessagesReceived (stats p) + 1
       \<and> MessagesProcessed (stats p') = MessagesProcessed (stats p) + 1
       \<and> MessagesValid (stats p') = MessagesValid (stats p) + (if isValid then 1 else 0)
       \<and> MessagesInvalid (stats p') = MessagesInvalid (stats p) + (if isValid then 0 else 1)
       \<and> ChecksumErrors (stats p') = ChecksumErrors (stats p) + (if isValid then 0 else 1)
       \<and> (SendTime msg = [] \<or> (\<exists>e. CalculateLatency lib (SendTime msg) receiveTime = Inl e)
            \<longrightarrow> TotalLatency (stats p') = TotalLatency (stats p)
              \<and> MinLatency (stats p') = MinLatency (stats p)
              \<and> MaxLatency (stats p') = MaxLatency (stats p))"
  by (cases err; cases isValid; cases "CalculateLatency lib (SendTime msg) receiveTime";
      cases "SendTime msg = []"; simp add: ProcessMessage_def assms Let_def)

lemma example_strings [simp]:
  "example_payload1 \<noteq> []" "example_payload_flipped \<noteq> []" "example_digest1 \<noteq> []"
  "example_payload_flipped \<noteq> example_payload1" "example_payload_flipped \<noteq> example_payload2"
  "example_payload1 \<noteq> example_payload2"
  "length example_digest1 = 64" "length example_digest_flipped = 64"
  by (simp_all add: example_payload1_def example_payload2_def example_payload_flipped_def
        example_digest1_def example_digest_flipped_def)

lemma example_checksums [simp]:
  "CalculateChecksumString example_library example_payload1 = example_digest1"
  "CalculateChecksumString example_library example_payload_flipped = example_digest_flipped"
  by (simp_all add: CalculateChecksumString_def example_library_def example_sha256_hex_def)

lemma example_digests_differ:
  "example_digest1 ! 2 \<noteq> example_digest_flipped ! 2"
  "example_digest1 ! 0 = example_digest_flipped ! 0"
  "example_digest1 ! 1 = example_digest_flipped ! 1"
  "example_digest1 ! Suc (Suc 0) \<noteq> example_digest_flipped ! Suc (Suc 0)"
  "example_digest1 ! Suc 0 = example_digest_flipped ! Suc 0"
  "example_digest_flipped \<noteq> example_digest1"
  by (simp_all add: example_digest1_def example_digest_flipped_def)

lemma example_times [simp]:
  "time_Parse example_library ''2024-01-20T15:31:00.5Z'' = Some 1705764660500000000"
  "time_Parse example_library ''2024-01-20T15:31:00.75Z'' = Some 1705764660750000000"
  "time_Parse example_library ''2024-01-20T15:30:55.5Z'' = Some 1705764655500000000"
  "time_Parse example_library ''2024-01-20T15:31:00.501005Z'' = Some 1705764660501005000"
  "time_Parse example_library ''yesterday'' = None"
  by (simp_all add: example_library_def example_time_Parse_def)

lemma example_floats:
  "float64_div (float64_of_int64 250000) 1000 = 250"
  "int64_of_float64 (float64_mul 250 1000) = 250000"
  "float64_div (float64_of_int64 (- 5000000)) 1000 = - 5000"
  "int64_of_float64 (float64_mul (- 5000) 1000) = - 5000000"
  "int64_of_float64 (float64_mul (float64_div (float64_of_int64 1005) 1000) 1000) = 1004"
  by code_simp+

lemma example_binds:
  "bindBatchTestRequest (Some example_batch_request) = Some example_batch_request"
  "bindStreamTestRequest (Some example_stream_request) = Some example_stream_request"
  "bindLargeTestRequest (Some example_large_request) = Some example_large_request"
  by (simp_all add: bindBatchTestRequest_def bindStreamTestRequest_def bindLargeTestRequest_def
        example_batch_request_def example_stream_request_def example_large_request_def
        oneof_mqtt_tcp_def)

lemma ReadFull_4_Cons [simp]:
  "ReadFull 4 (a # b # c # d # rest) = (Inr [a, b, c, d], rest)"
  by (simp add: ReadFull_def)

lemma ReadFull_append:
  "length xs = n \<Longrightarrow> ReadFull n (xs @ rest) = (Inr xs, rest)"
  by (simp add: ReadFull_def)

lemma handleMessage_too_large:
  "Uint32 [b0, b1, b2, b3] > 100 * 1024 * 1024
     \<Longrightarrow> handleMessage lib clk (b0 # b1 # b2 # b3 # rest) srv
         = Inr (Some (FrameTooLarge (Uint32 [b0, b1, b2, b3])), rest, srv)"
  by (simp add: handleMessage_def Let_def del: Uint32.simps)

lemma handleBatch_too_large:
  "Uint32 [b0, b1, b2, b3] > 100 * 1024 * 1024
     \<Longrightarrow> handleBatch lib clk (b0 # b1 # b2 # b3 # rest) srv
         = Inr (Some (FrameTooLarge (Uint32 [b0, b1, b2, b3])), rest, srv)"
  by (simp add: handleBatch_def Let_def del: Uint32.simps)

lemma loop_message_too_large:
  assumes "Uint32 [b0, b1, b2, b3] > 100 * 1024 * 1024"
  shows "handleConnection_loop lib clk (b0 # b1 # b2 # b3 # rest) srv
           = handleConnection_loop lib clk rest (incrementErrorCount srv)"
  using Uint32_large_first [OF assms] handleMessage_too_large [OF assms]
  by (simp del: Uint32.simps)

lemma loop_batch_too_large:
  assumes "Uint32 [b0, b1, b2, b3] > 100 * 1024 * 1024"
  shows "handleConnection_loop lib clk (1 # b0 # b1 # b2 # b3 # rest) srv
           = handleConnection_loop lib clk rest (incrementErrorCount srv)"
  using handleBatch_too_large [OF assms]
  by (simp del: Uint32.simps)

lemma Uint32_7000: "Uint32 [7, 0, 0, 0] = 117440512"
  by simp

lemma example_batch_length:
  "length (bytes_of (example_json_Batch example_batch)) = 369"
  by (simp add: bytes_of_def example_json_Batch_def example_batch_def example_json_Message_def
        example_message_def example_json_string_def example_escape_def example_json_int_def
        example_payload1_def example_digest1_def)

lemma bytes_of_ge_7:
  "list_all (\<lambda>b. 7 \<le> b) (bytes_of s) = list_all (\<lambda>c. 7 \<le> (of_char c :: nat)) s"
proof -
  have "(7 \<le> (word_of_nat (of_char c) :: byte)) = (7 \<le> (of_char c :: nat))" for c
  proof -
    have "(of_char c :: nat) < 256" by (cases c) simp
    then show ?thesis by (simp add: word_le_nat_alt unat_byte_of_nat)
  qed
  then show ?thesis by (simp add: bytes_of_def list_all_iff)
qed

lemma example_message_json:
  "length (example_json_Message (Some example_message)) = 309"
  "list_all (\<lambda>c. 7 \<le> (of_char c :: nat)) (example_json_Message (Some example_message))"
  by (simp_all add: example_json_Message_def example_message_def example_json_string_def
        example_escape_def example_json_int_def example_payload1_def example_digest1_def)

section \<open>Batch mode: the split of the total over the workers\<close>









section \<open>Latency extremes\<close>

lemma updateMinMaxLatency_calls_snoc:
  "updateMinMaxLatency_calls (xs @ [x]) st = updateMinMaxLatency x (updateMinMaxLatency_calls xs st)"
  by (simp add: updateMinMaxLatency_calls_def)

lemma min_max_latency_nonempty:
  assumes "list_all (\<lambda>x. 0 < sint x) xs" and "xs \<noteq> []"
  shows "sint (MaxLatency (updateMinMaxLatency_calls xs NewProcessorStats)) = Max (sint ` set xs)
       \<and> sint (MinLatency (updateMinMaxLatency_calls xs NewProcessorStats)) = Min (sint ` set xs)"
  using assms
proof (induction xs rule: rev_induct)
  case Nil
  then show ?case by simp
next
  case (snoc x xs)
  let ?r = "updateMinMaxLatency_calls xs NewProcessorStats"
  have px: "0 < sint x" using snoc.prems by simp
  show ?case
  proof (cases "xs = []")
    case True
    then show ?thesis using px
      by (simp add: updateMinMaxLatency_calls_def updateMinMaxLatency_def NewProcessorStats_def)
  next
    case False
    have pa: "list_all (\<lambda>x. 0 < sint x) xs" using snoc.prems by simp
    from snoc.IH [OF pa False]
    have mx: "sint (MaxLatency ?r) = Max (sint ` set xs)"
      and mn: "sint (MinLatency ?r) = Min (sint ` set xs)" by simp_all
    have "Min (sint ` set xs) \<in> sint ` set xs" using False by (intro Min_in) simp_all
    then have "0 < Min (sint ` set xs)" using pa by (auto simp: list_all_iff)
    then have nz: "MinLatency ?r \<noteq> 0" using mn by auto
    have fin: "finite (sint ` set xs)" "sint ` set xs \<noteq> {}" using False by simp_all
    have "sint (MaxLatency (updateMinMaxLatency x ?r)) = max (sint x) (Max (sint ` set xs))"
      using mx by (simp add: updateMinMaxLatency_def Let_def max_def)
    moreover have "sint (MinLatency (updateMinMaxLatency x ?r)) = min (sint x) (Min (sint ` set xs))"
      using mn nz by (simp add: updateMinMaxLatency_def Let_def min_def)
    ultimately show ?thesis
      using fin by (simp add: updateMinMaxLatency_calls_snoc)
  qed
qed

text \<open>
  Claim C10. From zero-initialised statistics, after any sequence of calls of
  \<open>updateMinMaxLatency\<close>, one after the other, with positive latencies, \<open>MaxLatency\<close> is
  the largest and \<open>MinLatency\<close> the smallest latency supplied so far; before the first
  call both are 0, which for \<open>MinLatency\<close> means "not set".
\<close>

theorem min_max_latency_track_extremes:
  assumes "list_all (\<lambda>x. 0 < sint x) xs"
  shows "(xs = [] \<longrightarrow> MinLatency (updateMinMaxLatency_calls xs NewProcessorStats) = 0
                    \<and> MaxLatency (updateMinMaxLatency_calls xs NewProcessorStats) = 0)
       \<and> (xs \<noteq> [] \<longrightarrow>
            sint (MaxLatency (updateMinMaxLatency_calls xs NewProcessorStats)) = Max (sint ` set xs)
          \<and> sint (MinLatency (updateMinMaxLatency_calls xs NewProcessorStats)) = Min (sint ` set xs))"
  using min_max_latency_nonempty [OF assms]
  by (auto simp: updateMinMaxLatency_calls_def NewProcessorStats_def)

theorem min_max_latency_track_extremes_witness:
  "list_all (\<lambda>x. 0 < sint x) [5000, 1200, 9000 :: int64]
   \<and> sint (MaxLatency (updateMinMaxLatency_calls [5000, 1200, 9000] NewProcessorStats)) = 9000
   \<and> sint (MinLatency (updateMinMaxLatency_calls [5000, 1200, 9000] NewProcessorStats)) = 1200"
  using min_max_latency_track_extremes [of "[5000, 1200, 9000]"]
  by simp

section \<open>The timestamp of an envelope\<close>

lemma batchMessage_fields:
  assumes "data \<noteq> []"
  shows "\<exists>msg m'. batchMessage lib data i now m = Inr (msg, m')
          \<and> Payload msg = json_Marshal_Data lib (data ! (i mod length data))
          \<and> Timestamp msg = DTimestamp (data ! (Suc i mod length data))
          \<and> MessageID msg = sint (messageIDGen m + 1)
          \<and> messageIDGen m' = messageIDGen m + 1"
  using assms by (simp add: batchMessage_def nextMessageID_def Let_def)

text \<open>
  Claim C7 says that the envelope's \<open>timestamp\<close> is the creation time of the record
  serialized into its \<open>payload\<close>. On a corpus of two records the first envelope of
  batch mode and of streaming mode carries the first record as payload and the
  creation time of the second record as timestamp.
\<close>

theorem timestamp_of_next_record:
  "batchMessage example_library [example_record1, example_record2] 0
       ''2024-01-20T15:31:00.5Z'' NewManager
     = Inr (example_message, \<lparr>messageIDGen = 1\<rparr>)
   \<and> streamMessage example_library [example_record1, example_record2] 0
       ''2024-01-20T15:31:00.5Z'' NewManager
     = Inr (example_message, \<lparr>messageIDGen = 1\<rparr>)
   \<and> Payload example_message = json_Marshal_Data example_library example_record1
   \<and> Timestamp example_message = DTimestamp example_record2
   \<and> Timestamp example_message \<noteq> DTimestamp example_record1"
proof -
  have p: "json_Marshal_Data example_library example_record1 = example_payload1"
    by (simp add: example_library_def example_json_Data_def example_record1_def
          example_json_int_def example_json_string_def example_escape_def example_payload1_def)
  show ?thesis
    by (simp add: p batchMessage_def streamMessage_def nextMessageID_def NewManager_def
          example_message_def Let_def)
       (simp add: example_record1_def example_record2_def)
qed

section \<open>Checksum mismatches\<close>

text \<open>What \<open>CompareChecksums\<close> would give for two digests that differ at an index
  present in both; the recipient never calls it.\<close>

lemma findMismatch_first:
  assumes "i < minLen" and "expected ! i \<noteq> actual ! i"
    and "\<forall>j<i. expected ! j = actual ! j" and "k \<le> i"
  shows "findMismatch expected actual minLen k pos = int i"
  using assms(4)
proof (induction "i - k" arbitrary: k)
  case 0
  then have "k = i" by simp
  then show ?case using assms(1,2) by simp
next
  case (Suc n)
  then have "k < i" by simp
  then have "expected ! k = actual ! k" "k < minLen" using assms(1,3) by simp_all
  moreover have "findMismatch expected actual minLen (Suc k) pos = int i"
    using Suc by simp
  ultimately show ?case by simp
qed

lemma CompareChecksums_mismatch:
  assumes "expected \<noteq> actual"
  shows "Expected (CompareChecksums expected actual) = expected"
    and "Actual (CompareChecksums expected actual) = actual"
    and "\<not> IsValid (CompareChecksums expected actual)"
    and "i < length expected \<Longrightarrow> i < length actual \<Longrightarrow> expected ! i \<noteq> actual ! i
           \<Longrightarrow> \<forall>j<i. expected ! j = actual ! j
           \<Longrightarrow> FirstMismatchPosition (CompareChecksums expected actual) = int i"
proof -
  show "Expected (CompareChecksums expected actual) = expected"
    "Actual (CompareChecksums expected actual) = actual"
    "\<not> IsValid (CompareChecksums expected actual)"
    using assms by (simp_all add: CompareChecksums_def Let_def)
  assume i: "i < length expected" "i < length actual" "expected ! i \<noteq> actual ! i"
    "\<forall>j<i. expected ! j = actual ! j"
  then have "findMismatch expected actual
      (if length actual < length expected then length actual else length expected) 0 0 = int i"
    by (intro findMismatch_first) auto
  then show "FirstMismatchPosition (CompareChecksums expected actual) = int i"
    using assms by (simp add: CompareChecksums_def Let_def del: findMismatch.simps)
qed

text \<open>
  Claim C3, as amended. For every received envelope whose recomputed payload checksum
  differs from the embedded one, \<open>ProcessMessage\<close> returns, the invalid count and the
  checksum-error count each go up by exactly 1 and the valid count is unchanged. What
  it records of the mismatch are the lines it logs, given here in full: the line of the
  validator (the embedded and the recomputed digest and the payload length, or the
  validation error for an empty payload or checksum), the line of the message log, and
  a warning with the message id, the expected (embedded) and the actual (recomputed)
  digest. No line has a field for the position of the first differing byte.
\<close>

theorem checksum_mismatch_counted:
  assumes "CalculateChecksumString lib (Payload msg) \<noteq> Checksum msg"
  shows "\<exists>p'. ProcessMessage lib startTime receiveTime (Some msg) p = Inr p'
            \<and> MessagesInvalid (stats p') = MessagesInvalid (stats p) + 1
            \<and> ChecksumErrors (stats p') = ChecksumErrors (stats p) + 1
            \<and> MessagesValid (stats p') = MessagesValid (stats p)
            \<and> logged p'
                = logged p
                  @ (if Payload msg = []
                     then [(ErrorLevel, [zap_Int ''message_id'' (MessageID msg), zap_Error EmptyPayload])]
                     else if Checksum msg = []
                     then [(ErrorLevel, [zap_Int ''message_id'' (MessageID msg), zap_Error MissingChecksum])]
                     else [(DebugLevel,
                            [zap_Int ''message_id'' (MessageID msg),
                             zap_String ''expected'' (Checksum msg),
                             zap_String ''calculated'' (CalculateChecksumString lib (Payload msg)),
                             zap_Int ''payload_length'' (int (length (Payload msg)))])])
                  @ [logMessage msg receiveTime (length (json_Marshal_Message lib (Some msg))) False,
                     (WarnLevel,
                      [zap_Int ''message_id'' (MessageID msg),
                       zap_String ''expected'' (Checksum msg),
                       zap_String ''actual'' (CalculateChecksumString lib (Payload msg))])]"
  using assms
  by (cases "CalculateLatency lib (SendTime msg) receiveTime"; cases "SendTime msg = []")
     (simp_all add: ProcessMessage_def ValidateMessage_def Let_def)

lemma example_truncated_json:
  "length (json_Marshal_Message example_library (Some example_truncated)) = 308"
  "length (json_Marshal_Message example_library (Some example_corrupted)) = 309"
  by (simp_all add: example_library_def bytes_of_def example_json_Message_def example_truncated_def
        example_corrupted_def example_message_def example_json_string_def example_escape_def
        example_json_int_def example_payload1_def example_payload_flipped_def example_digest1_def)

theorem checksum_mismatch_counted_witness:
  "CalculateChecksumString example_library (Payload example_truncated) \<noteq> Checksum example_truncated
   \<and> (\<exists>p'. ProcessMessage example_library 1705764660750000000 ''2024-01-20T15:31:00.75Z''
              (Some example_truncated) NewMessageProcessor = Inr p'
          \<and> MessagesInvalid (stats p') = 1 \<and> ChecksumErrors (stats p') = 1
          \<and> MessagesValid (stats p') = 0
          \<and> logged p'
              = [(DebugLevel,
                  [zap_Int ''message_id'' 1,
                   zap_String ''expected'' (butlast example_digest1),
                   zap_String ''calculated'' example_digest1,
                   zap_Int ''payload_length'' 116]),
                 (InfoLevel,
                  [zap_Int ''message_id'' 1,
                   zap_String ''send_time'' ''2024-01-20T15:31:00.5Z'',
                   zap_String ''receive_time'' ''2024-01-20T15:31:00.75Z'',
                   zap_String ''checksum'' (butlast example_digest1),
                   zap_Bool ''checksum_valid'' False,
                   zap_Int ''message_size'' 308,
                   zap_String ''error'' ''Checksum mismatch'']),
                 (WarnLevel,
                  [zap_Int ''message_id'' 1,
                   zap_String ''expected'' (butlast example_digest1),
                   zap_String ''actual'' example_digest1])])"
proof -
  have h: "CalculateChecksumString example_library (Payload example_truncated)
            \<noteq> Checksum example_truncated"
    by (simp add: example_truncated_def example_message_def) (simp add: example_digest1_def)
  have l: "length example_payload1 = 116" by (simp add: example_payload1_def)
  have n: "butlast example_digest1 \<noteq> []" by (simp add: example_digest1_def)
  from h checksum_mismatch_counted [OF h, of 1705764660750000000 "''2024-01-20T15:31:00.75Z''"
      NewMessageProcessor]
  show ?thesis
    by (simp add: example_truncated_json logMessage_def l n)
       (simp add: example_truncated_def example_message_def NewMessageProcessor_def
          NewProcessorStats_def l n)
qed

text \<open>
  Claim C3 as stated has the diagnostics keep the position of the first differing byte
  as well. For the example envelope with one payload byte changed, the two digests
  agree on their first two characters and differ at position 2; the three lines that
  processing logs hold both digests and nothing of that position.
\<close>

theorem mismatch_position_counterexample:
  "(\<exists>p'. ProcessMessage example_library 1705764660750000000 ''2024-01-20T15:31:00.75Z''
              (Some example_corrupted) NewMessageProcessor = Inr p'
          \<and> MessagesInvalid (stats p') = 1 \<and> ChecksumErrors (stats p') = 1
          \<and> logged p'
              = [(DebugLevel,
                  [zap_Int ''message_id'' 1,
                   zap_String ''expected'' example_digest1,
                   zap_String ''calculated'' example_digest_flipped,
                   zap_Int ''payload_length'' 116]),
                 (InfoLevel,
                  [zap_Int ''message_id'' 1,
                   zap_String ''send_time'' ''2024-01-20T15:31:00.5Z'',
                   zap_String ''receive_time'' ''2024-01-20T15:31:00.75Z'',
                   zap_String ''checksum'' example_digest1,
                   zap_Bool ''checksum_valid'' False,
                   zap_Int ''message_size'' 309,
                   zap_String ''error'' ''Checksum mismatch'']),
                 (WarnLevel,
                  [zap_Int ''message_id'' 1,
                   zap_String ''expected'' example_digest1,
                   zap_String ''actual'' example_digest_flipped])])
   \<and> take 2 example_digest1 = take 2 example_digest_flipped
   \<and> example_digest1 ! 2 \<noteq> example_digest_flipped ! 2"
proof -
  have l: "length example_payload_flipped = 116" by (simp add: example_payload_flipped_def)
  have v: "ValidateMessage example_library (Some example_corrupted)
      = (False, None,
         [(DebugLevel,
           [zap_Int ''message_id'' 1, zap_String ''expected'' example_digest1,
            zap_String ''calculated'' example_digest_flipped, zap_Int ''payload_length'' 116])])"
    by (simp add: ValidateMessage_def example_corrupted_def example_message_def Let_def l
          example_digests_differ)
  have c: "CalculateLatency example_library ''2024-01-20T15:31:00.5Z'' ''2024-01-20T15:31:00.75Z''
      = Inr 250"
    by (simp add: CalculateLatency_def ParseTime_def time_Sub_def Microseconds_def example_floats)
  have s: "SendTime example_corrupted = ''2024-01-20T15:31:00.5Z''"
    "MessageID example_corrupted = 1" "Checksum example_corrupted = example_digest1"
    "Payload example_corrupted = example_payload_flipped"
    by (simp_all add: example_corrupted_def example_message_def)
  have t: "take 2 example_digest1 = take 2 example_digest_flipped"
    by (simp add: example_digest1_def example_digest_flipped_def)
  show ?thesis
    using t example_digests_differ(1)
    by (simp add: ProcessMessage_def v c s Let_def example_truncated_json logMessage_def
          NewMessageProcessor_def NewProcessorStats_def updateMinMaxLatency_def example_floats)
qed

section \<open>Latency of a processed message\<close>

lemma CalculateLatency_parsed:
  "time_Parse lib sendTime = Some sent \<Longrightarrow> time_Parse lib receiveTime = Some received
     \<Longrightarrow> CalculateLatency lib sendTime receiveTime
         = Inr (float64_div (float64_of_int64 (Microseconds (time_Sub received sent))) 1000)"
  by (simp add: CalculateLatency_def ParseTime_def)

lemma CalculateLatency_unparsed:
  "time_Parse lib sendTime = None \<or> time_Parse lib receiveTime = None
     \<Longrightarrow> CalculateLatency lib sendTime receiveTime = Inl ParseError"
  by (auto simp: CalculateLatency_def ParseTime_def split: option.splits)

lemma ProcessMessage_latency:
  assumes "SendTime msg \<noteq> []"
    and "CalculateLatency lib (SendTime msg) receiveTime = Inr latency"
  shows "\<exists>p'. ProcessMessage lib startTime receiveTime (Some msg) p = Inr p'
       \<and> TotalLatency (stats p')
           = TotalLatency (stats p) + int64_of_float64 (float64_mul latency 1000)
       \<and> MinLatency (stats p')
           = (if MinLatency (stats p) = 0
                 \<or> sint (int64_of_float64 (float64_mul latency 1000)) < sint (MinLatency (stats p))
              then int64_of_float64 (float64_mul latency 1000) else MinLatency (stats p))
       \<and> MaxLatency (stats p')
           = (if sint (MaxLatency (stats p)) < sint (int64_of_float64 (float64_mul latency 1000))
              then int64_of_float64 (float64_mul latency 1000) else MaxLatency (stats p))
       \<and> MessagesProcessed (stats p') = MessagesProcessed (stats p) + 1"
proof -
  obtain isValid err debug where v: "ValidateMessage lib (Some msg) = (isValid, err, debug)"
    by (cases "ValidateMessage lib (Some msg)")
  show ?thesis
    using assms
    by (cases err; cases isValid)
       (simp_all add: ProcessMessage_def v Let_def updateMinMaxLatency_def)
qed

lemma ProcessMessage_no_latency:
  assumes "SendTime msg = [] \<or> CalculateLatency lib (SendTime msg) receiveTime = Inl e"
  shows "\<exists>p'. ProcessMessage lib startTime receiveTime (Some msg) p = Inr p'
       \<and> TotalLatency (stats p') = TotalLatency (stats p)
       \<and> MinLatency (stats p') = MinLatency (stats p)
       \<and> MaxLatency (stats p') = MaxLatency (stats p)
       \<and> MessagesProcessed (stats p') = MessagesProcessed (stats p) + 1"
proof -
  obtain isValid err debug where v: "ValidateMessage lib (Some msg) = (isValid, err, debug)"
    by (cases "ValidateMessage lib (Some msg)")
  from ProcessMessage_Some [OF v, of startTime receiveTime p] assms
  show ?thesis by auto
qed

lemma example_microseconds:
  "Microseconds (time_Sub 1705764660750000000 1705764660500000000) = 250000"
  "Microseconds (time_Sub 1705764660501005000 1705764660500000000) = 1005"
  "Microseconds (time_Sub 1705764655500000000 1705764660500000000) = - 5000000"
  by (simp_all add: time_Sub_def Microseconds_def)

text \<open>
  Claim C8, as amended. For a message whose send time is not empty and parses, as does
  the receive time, the latency is the receive time minus the send time in whole
  microseconds, divided by 1000 in \<open>float64\<close>, that is in fractional milliseconds;
  \<open>ProcessMessage\<close> multiplies it by 1000 again, drops the fraction, adds the result
  to the latency sum and offers it to the minimum and the maximum, whatever its sign,
  and the processed count goes up by 1. For every message whose send time is empty or
  does not parse (or whose receive time does not parse) the latency sum, minimum and
  maximum are unchanged and the processed count goes up by 1.
\<close>

theorem latency_unparsable_excluded:
  "(SendTime msg \<noteq> [] \<and> time_Parse lib (SendTime msg) = Some sent
      \<and> time_Parse lib receiveTime = Some received
      \<longrightarrow> CalculateLatency lib (SendTime msg) receiveTime
            = Inr (float64_div (float64_of_int64 (Microseconds (time_Sub received sent))) 1000)
        \<and> (let latencyMicros =
                  int64_of_float64
                    (float64_mul
                       (float64_div (float64_of_int64 (Microseconds (time_Sub received sent))) 1000)
                       1000)
            in \<exists>p'. ProcessMessage lib startTime receiveTime (Some msg) p = Inr p'
                 \<and> TotalLatency (stats p') = TotalLatency (stats p) + latencyMicros
                 \<and> MinLatency (stats p')
                     = (if MinLatency (stats p) = 0
                           \<or> sint latencyMicros < sint (MinLatency (stats p))
                        then latencyMicros else MinLatency (stats p))
                 \<and> MaxLatency (stats p')
                     = (if sint (MaxLatency (stats p)) < sint latencyMicros
                        then latencyMicros else MaxLatency (stats p))
                 \<and> MessagesProcessed (stats p') = MessagesProcessed (stats p) + 1))
   \<and> (SendTime msg = [] \<or> time_Parse lib (SendTime msg) = None
        \<or> time_Parse lib receiveTime = None
      \<longrightarrow> (\<exists>p'. ProcessMessage lib startTime receiveTime (Some msg) p = Inr p'
               \<and> TotalLatency (stats p') = TotalLatency (stats p)
               \<and> MinLatency (stats p') = MinLatency (stats p)
               \<and> MaxLatency (stats p') = MaxLatency (stats p)
               \<and> MessagesProcessed (stats p') = MessagesProcessed (stats p) + 1))"
proof (intro conjI impI)
  assume a: "SendTime msg \<noteq> [] \<and> time_Parse lib (SendTime msg) = Some sent
      \<and> time_Parse lib receiveTime = Some received"
  then show c: "CalculateLatency lib (SendTime msg) receiveTime
      = Inr (float64_div (float64_of_int64 (Microseconds (time_Sub received sent))) 1000)"
    by (simp add: CalculateLatency_parsed)
  from a ProcessMessage_latency [OF _ c, of startTime p]
  show "let latencyMicros =
                  int64_of_float64
                    (float64_mul
                       (float64_div (float64_of_int64 (Microseconds (time_Sub received sent))) 1000)
                       1000)
            in \<exists>p'. ProcessMessage lib startTime receiveTime (Some msg) p = Inr p'
                 \<and> TotalLatency (stats p') = TotalLatency (stats p) + latencyMicros
                 \<and> MinLatency (stats p')
                     = (if MinLatency (stats p) = 0
                           \<or> sint latencyMicros < sint (MinLatency (stats p))
                        then latencyMicros else MinLatency (stats p))
                 \<and> MaxLatency (stats p')
                     = (if sint (MaxLatency (stats p)) < sint latencyMicros
                        then latencyMicros else MaxLatency (stats p))
                 \<and> MessagesProcessed (stats p') = MessagesProcessed (stats p) + 1"
    unfolding Let_def by blast
next
  assume "SendTime msg = [] \<or> time_Parse lib (SendTime msg) = None
        \<or> time_Parse lib receiveTime = None"
  then have "SendTime msg = [] \<or> CalculateLatency lib (SendTime msg) receiveTime = Inl ParseError"
    using CalculateLatency_unparsed [of lib "SendTime msg" receiveTime] by blast
  from ProcessMessage_no_latency [OF this]
  show "\<exists>p'. ProcessMessage lib startTime receiveTime (Some msg) p = Inr p'
               \<and> TotalLatency (stats p') = TotalLatency (stats p)
               \<and> MinLatency (stats p') = MinLatency (stats p)
               \<and> MaxLatency (stats p') = MaxLatency (stats p)
               \<and> MessagesProcessed (stats p') = MessagesProcessed (stats p) + 1" .
qed

text \<open>Three instances: a latency of 250 ms; one of 1005 microseconds, which the two
  \<open>float64\<close> operations turn into 1004; and a send time that does not parse.\<close>

theorem latency_unparsable_excluded_witness:
  "SendTime example_message \<noteq> []
   \<and> time_Parse example_library (SendTime example_message) = Some 1705764660500000000
   \<and> time_Parse example_library ''2024-01-20T15:31:00.75Z'' = Some 1705764660750000000
   \<and> CalculateLatency example_library (SendTime example_message) ''2024-01-20T15:31:00.75Z''
       = Inr 250
   \<and> (\<exists>p'. ProcessMessage example_library 1705764660750000000 ''2024-01-20T15:31:00.75Z''
              (Some example_message) NewMessageProcessor = Inr p'
          \<and> TotalLatency (stats p') = 250000 \<and> MinLatency (stats p') = 250000
          \<and> MaxLatency (stats p') = 250000 \<and> MessagesProcessed (stats p') = 1)
   \<and> (\<exists>p'. ProcessMessage example_library 1705764660501005000 ''2024-01-20T15:31:00.501005Z''
              (Some example_message) NewMessageProcessor = Inr p'
          \<and> TotalLatency (stats p') = 1004 \<and> MinLatency (stats p') = 1004
          \<and> MaxLatency (stats p') = 1004 \<and> MessagesProcessed (stats p') = 1)
   \<and> time_Parse example_library (SendTime example_undated) = None
   \<and> (\<exists>p'. ProcessMessage example_library 1705764660750000000 ''2024-01-20T15:31:00.75Z''
              (Some example_undated) NewMessageProcessor = Inr p'
          \<and> TotalLatency (stats p') = 0 \<and> MinLatency (stats p') = 0
          \<and> MaxLatency (stats p') = 0 \<and> MessagesProcessed (stats p') = 1)"
proof -
  have s: "SendTime example_message = ''2024-01-20T15:31:00.5Z''"
    "SendTime example_undated = ''yesterday''"
    by (simp_all add: example_message_def example_undated_def)
  have z: "stats NewMessageProcessor = NewProcessorStats" by (simp add: NewMessageProcessor_def)
  have n: "TotalLatency NewProcessorStats = 0" "MinLatency NewProcessorStats = 0"
    "MaxLatency NewProcessorStats = 0" "MessagesProcessed NewProcessorStats = 0"
    by (simp_all add: NewProcessorStats_def)
  note T1 = latency_unparsable_excluded
    [of example_message example_library 1705764660500000000 "''2024-01-20T15:31:00.75Z''"
       1705764660750000000 1705764660750000000 NewMessageProcessor, THEN conjunct1]
  note T2 = latency_unparsable_excluded
    [of example_message example_library 1705764660500000000 "''2024-01-20T15:31:00.501005Z''"
       1705764660501005000 1705764660501005000 NewMessageProcessor, THEN conjunct1]
  note T3 = latency_unparsable_excluded
    [of example_undated example_library 0 "''2024-01-20T15:31:00.75Z''"
       0 1705764660750000000 NewMessageProcessor, THEN conjunct2]
  from T1 T2 T3 show ?thesis
    by (simp add: s z n example_microseconds example_floats)
qed

text \<open>
  Claim C8 as stated also excludes negative latencies from the aggregates. The code
  has no such check: for the example envelope received by a clock that is five
  seconds behind the sender's, the latency is \<open>-5000\<close> ms, the sum becomes
  \<open>-5000000\<close> microseconds and so does the minimum.
\<close>

theorem negative_latency_counterexample:
  "CalculateLatency example_library (SendTime example_message) ''2024-01-20T15:30:55.5Z''
     = Inr (- 5000)
   \<and> (\<exists>p'. ProcessMessage example_library 1705764655500000000 ''2024-01-20T15:30:55.5Z''
              (Some example_message) NewMessageProcessor = Inr p'
          \<and> MessagesProcessed (stats p') = 1
          \<and> sint (TotalLatency (stats p')) = - 5000000
          \<and> sint (MinLatency (stats p')) = - 5000000
          \<and> MaxLatency (stats p') = 0)"
proof -
  have s: "SendTime example_message = ''2024-01-20T15:31:00.5Z''"
    by (simp add: example_message_def)
  have l: "CalculateLatency example_library (SendTime example_message) ''2024-01-20T15:30:55.5Z''
     = Inr (- 5000)"
    by (simp add: s CalculateLatency_def ParseTime_def example_microseconds example_floats)
  have n: "SendTime example_message \<noteq> []" by (simp add: s)
  have z: "stats NewMessageProcessor = NewProcessorStats" by (simp add: NewMessageProcessor_def)
  have m: "TotalLatency NewProcessorStats = 0" "MinLatency NewProcessorStats = 0"
    "MaxLatency NewProcessorStats = 0" "MessagesProcessed NewProcessorStats = 0"
    by (simp_all add: NewProcessorStats_def)
  have w: "sint (- 5000000 :: int64) = - 5000000" by simp
  from ProcessMessage_latency [OF n l, of 1705764655500000000 NewMessageProcessor]
  obtain p' where "ProcessMessage example_library 1705764655500000000 ''2024-01-20T15:30:55.5Z''
        (Some example_message) NewMessageProcessor = Inr p'"
    "TotalLatency (stats p') = - 5000000" "MinLatency (stats p') = - 5000000"
    "MaxLatency (stats p') = 0" "MessagesProcessed (stats p') = 1"
    by (auto simp: z m example_floats)
  with l w show ?thesis by simp
qed

section \<open>Starting a test while one is active\<close>

text \<open>While \<open>isTestActive\<close> is set, a start request is answered with Conflict when
  its body binds, with BadRequest when it does not, and the state is unchanged.\<close>

lemma start_while_flag_set:
  assumes "isTestActive api"
  shows "startBatchTest bbody api
           = (if bindBatchTestRequest bbody = None then StatusBadRequest else StatusConflict, api)
       \<and> startStreamTest sbody api
           = (if bindStreamTestRequest sbody = None then StatusBadRequest else StatusConflict, api)
       \<and> startLargeTest lbody api
           = (if bindLargeTestRequest lbody = None then StatusBadRequest else StatusConflict, api)"
  using assms
  by (auto simp: startBatchTest_def startStreamTest_def startLargeTest_def split: option.splits)

text \<open>
  Claim C4 says that while a test is active every request to start a second one fails
  with Conflict and leaves the running test's state as it is. The handlers decide by
  \<open>isTestActive\<close>, and that flag does not follow the running test: \<open>stopTest\<close>
  clears it as soon as the stop is requested, and the function deferred by each run's
  goroutine clears it when that run returns, also when a later test has set it since.

  The sequence below: a batch test is started and enters; \<open>stopTest\<close> is called, and the
  flag is cleared while the goroutine of the batch test has not returned; a stream test
  is started (status 200) and enters; the run of the batch test returns and its deferred
  function clears the flag of the stream test. The stream test runs, never stopped,
  with the flag cleared. A request to start a large test is then answered with status
  200, \<open>currentTest\<close> becomes the configuration of the large test, and the two tests
  run side by side.
\<close>

theorem start_accepted_while_test_runs:
  "(let (r1, a1) = startBatchTest (Some example_batch_request) NewAPI;
        a2 = runEnters 0 a1;
        (r3, a3) = stopTest a2;
        (r4, a4) = startStreamTest (Some example_stream_request) a3;
        a5 = runEnters 1 a4;
        a6 = runReturns 0 a5;
        (r7, a7) = startLargeTest (Some example_large_request) a6
    in r1 = StatusOK \<and> r3 = StatusOK
       \<and> running a3 = [\<lparr>gConfig = example_batch_config, gEntered = True\<rparr>]
       \<and> isTestActive a3 = False
       \<and> r4 = StatusOK
       \<and> running a6 = [\<lparr>gConfig = example_stream_config, gEntered = True\<rparr>]
       \<and> isTestActive a6 = False
       \<and> currentTest a6 = Some example_stream_config
       \<and> managerTest a6 = Some example_stream_config
       \<and> stopChan a6 = OpenChan
       \<and> r7 = StatusOK
       \<and> currentTest a7 = Some example_large_config
       \<and> running a7 = [\<lparr>gConfig = example_stream_config, gEntered = True\<rparr>,
                        \<lparr>gConfig = example_large_config, gEntered = False\<rparr>]
       \<and> example_large_config \<noteq> example_stream_config)"
  by (simp add: startBatchTest_def startStreamTest_def startLargeTest_def example_binds
        launch_def defaultProtocol_def NewAPI_def runEnters_def runReturns_def stopTest_def
        StopCurrentTest_def Let_def)
     (simp add: example_batch_request_def example_stream_request_def
        example_large_request_def example_batch_config_def example_stream_config_def
        example_large_config_def ProtocolMQTT_def)

section \<open>Message identifiers\<close>

lemma create_id:
  assumes "create lib c m = Inr (msg, m')"
  shows "MessageID msg = sint (messageIDGen m + 1) \<and> messageIDGen m' = messageIDGen m + 1"
  using assms
  by (cases c)
     (auto simp: batchMessage_def streamMessage_def largeMessage_def nextMessageID_def Let_def
        split: if_splits)

lemma createAll_ids:
  assumes "sint (messageIDGen m) + int (length cs) < 2 ^ 63"
  shows "sorted_wrt (<) (map MessageID (createAll lib cs m))
       \<and> list_all (\<lambda>i. sint (messageIDGen m) < i) (map MessageID (createAll lib cs m))"
  using assms
proof (induction cs arbitrary: m)
  case Nil
  then show ?case by simp
next
  case (Cons c cs)
  show ?case
  proof (cases "create lib c m")
    case (Inl p)
    then show ?thesis by simp
  next
    case (Inr r)
    obtain msg m' where r: "r = (msg, m')" by (cases r)
    from create_id [of lib c m msg m'] Inr r
    have id: "MessageID msg = sint (messageIDGen m + 1)" and g: "messageIDGen m' = messageIDGen m + 1"
      by simp_all
    have lt: "sint (messageIDGen m) < 2 ^ 63 - 1" using Cons.prems by simp
    have s: "sint (messageIDGen m + 1) = sint (messageIDGen m) + 1" by (rule sint_Suc [OF lt])
    have "sint (messageIDGen m') + int (length cs) < 2 ^ 63" using Cons.prems g s by simp
    from Cons.IH [OF this]
    have ih: "sorted_wrt (<) (map MessageID (createAll lib cs m'))"
      "list_all (\<lambda>i. sint (messageIDGen m') < i) (map MessageID (createAll lib cs m'))"
      by simp_all
    have gt: "list_all (\<lambda>i. MessageID msg < i) (map MessageID (createAll lib cs m'))"
      using ih(2) id g by simp
    have gt2: "list_all (\<lambda>i. sint (messageIDGen m) < i) (map MessageID (createAll lib cs m'))"
      using ih(2) g s by (auto simp: list_all_iff)
    show ?thesis
      using Inr r ih(1) gt gt2 id s by (auto simp: list_all_iff)
  qed
qed

text \<open>
  Claim C6. The envelopes of a process take their \<open>message_id\<close> from the one counter
  of the manager: in the order of the additions, whichever worker, mode and transport
  each belongs to, the identifiers are strictly increasing, hence pairwise distinct.
  The counter is a signed 64-bit integer; the statement is for runs that do not
  exhaust it.
\<close>

theorem message_ids_strictly_increasing:
  assumes "sint (messageIDGen m) + int (length cs) < 2 ^ 63"
  shows "sorted_wrt (<) (map MessageID (createAll lib cs m))
       \<and> distinct (map MessageID (createAll lib cs m))"
proof -
  have s: "sorted_wrt (<) (map MessageID (createAll lib cs m))"
    using createAll_ids [OF assms] by simp
  then have "distinct (map MessageID (createAll lib cs m))"
    by (simp add: strict_sorted_iff)
  with s show ?thesis by simp
qed

theorem message_ids_strictly_increasing_witness:
  "sint (messageIDGen NewManager) + int (length example_schedule) < 2 ^ 63
   \<and> map MessageID (createAll example_library example_schedule NewManager) = [1, 2, 3, 4]
   \<and> sorted_wrt (<) (map MessageID (createAll example_library example_schedule NewManager))
   \<and> distinct (map MessageID (createAll example_library example_schedule NewManager))"
proof -
  have h: "sint (messageIDGen NewManager) + int (length example_schedule) < 2 ^ 63"
    by (simp add: NewManager_def example_schedule_def)
  have ids: "map MessageID (createAll example_library example_schedule NewManager) = [1, 2, 3, 4]"
    by (simp add: example_schedule_def NewManager_def batchMessage_def streamMessage_def
          largeMessage_def nextMessageID_def Let_def)
  from h ids message_ids_strictly_increasing [OF h, of example_library] show ?thesis
    by simp
qed

section \<open>Oversized frames\<close>

text \<open>
  Claim C2, as amended. Whenever the reader reads a frame, single-envelope or batch,
  whose 4-byte big-endian length prefix exceeds 100 MiB, the frame handler returns an
  error without reading the body and without processing anything; the reader loop
  counts the error and goes on reading the same connection at the byte after the
  prefix. (A prefix above 100 MiB has a first byte other than \<open>0x00\<close> and \<open>0x01\<close>, so
  a single-envelope frame with such a prefix does reach \<open>handleMessage\<close>.)
\<close>

theorem oversized_frame_rejected:
  assumes "Uint32 [b0, b1, b2, b3] > 100 * 1024 * 1024"
  shows "handleMessage lib clk (b0 # b1 # b2 # b3 # rest) srv
           = Inr (Some (FrameTooLarge (Uint32 [b0, b1, b2, b3])), rest, srv)
       \<and> handleBatch lib clk (b0 # b1 # b2 # b3 # rest) srv
           = Inr (Some (FrameTooLarge (Uint32 [b0, b1, b2, b3])), rest, srv)
       \<and> handleConnection_loop lib clk (b0 # b1 # b2 # b3 # rest) srv
           = handleConnection_loop lib clk rest (incrementErrorCount srv)
       \<and> handleConnection_loop lib clk (1 # b0 # b1 # b2 # b3 # rest) srv
           = handleConnection_loop lib clk rest (incrementErrorCount srv)"
  using handleMessage_too_large [OF assms] handleBatch_too_large [OF assms]
    loop_message_too_large [OF assms] loop_batch_too_large [OF assms]
  by simp

theorem oversized_frame_rejected_witness:
  "Uint32 [7, 0, 0, 0] > 100 * 1024 * 1024
   \<and> handleMessage example_library example_clock [7, 0, 0, 0, 0] NewTCPServer
       = Inr (Some (FrameTooLarge 117440512), [0], NewTCPServer)
   \<and> handleBatch example_library example_clock [7, 0, 0, 0, 0] NewTCPServer
       = Inr (Some (FrameTooLarge 117440512), [0], NewTCPServer)
   \<and> handleConnection_loop example_library example_clock [7, 0, 0, 0, 0] NewTCPServer
       = Inr (incrementErrorCount NewTCPServer)
   \<and> handleConnection_loop example_library example_clock [1, 7, 0, 0, 0, 0] NewTCPServer
       = Inr (incrementErrorCount NewTCPServer)"
proof -
  have h: "Uint32 [7, 0, 0, 0] > 100 * 1024 * 1024" by simp
  from oversized_frame_rejected [OF h, of example_library example_clock "[0]" NewTCPServer] h
  show ?thesis by (simp del: Uint32.simps add: Uint32_7000)
qed

text \<open>
  Claim C2 as stated has the connection terminated at the oversized frame. On a stream
  of two oversized length prefixes the loop handles both, on the one connection: two
  errors are counted before the peer's close ends it.
\<close>

theorem oversized_frame_counterexample:
  "handleConnection example_library example_clock [7, 0, 0, 0, 7, 0, 0, 0] example_server
     = Inr (NewTCPServer\<lparr>serverStats := (serverStats NewTCPServer)
                              \<lparr>ConnectionsTotal := 1, Errors := 2\<rparr>\<rparr>)"
proof -
  have h: "Uint32 [7, 0, 0, 0] > 100 * 1024 * 1024" by simp
  have "handleConnection_loop example_library example_clock [7, 0, 0, 0, 7, 0, 0, 0] example_server
      = handleConnection_loop example_library example_clock [7, 0, 0, 0]
          (incrementErrorCount example_server)"
    by (rule loop_message_too_large [OF h])
  also have "\<dots> = handleConnection_loop example_library example_clock []
          (incrementErrorCount (incrementErrorCount example_server))"
    by (rule loop_message_too_large [OF h])
  finally have "handleConnection_loop example_library example_clock [7, 0, 0, 0, 7, 0, 0, 0]
      example_server = Inr (incrementErrorCount (incrementErrorCount example_server))"
    by (simp only: handleConnection_loop.simps(1))
  then show ?thesis
    by (simp add: handleConnection_def incrementErrorCount_def decrementConnectionCount_def
          incrementConnectionCount_def example_server_def NewTCPServer_def)
qed

section \<open>Batches and their count field\<close>

lemma serverProcess_Some:
  "\<exists>srv'. serverProcess lib clk (Some msg) srv = Inr srv'
       \<and> serverStats srv' = serverStats srv
       \<and> MessagesReceived (stats (processor srv')) = MessagesReceived (stats (processor srv)) + 1
       \<and> MessagesProcessed (stats (processor srv')) = MessagesProcessed (stats (processor srv)) + 1"
proof -
  obtain isValid err debug where v: "ValidateMessage lib (Some msg) = (isValid, err, debug)"
    by (cases "ValidateMessage lib (Some msg)")
  from ProcessMessage_Some [OF v, of "time_Now clk (tick srv)" "GetCurrentTime clk (tick srv)"
      "processor srv"]
  show ?thesis by (auto simp: serverProcess_def)
qed

lemma processBatchMessages_count:
  assumes "list_all (\<lambda>m. m \<noteq> None) ms"
  shows "\<exists>srv'. processBatchMessages lib clk ms srv = Inr srv'
       \<and> serverStats srv' = serverStats srv
       \<and> MessagesReceived (stats (processor srv'))
           = MessagesReceived (stats (processor srv)) + word_of_nat (length ms)
       \<and> MessagesProcessed (stats (processor srv'))
           = MessagesProcessed (stats (processor srv)) + word_of_nat (length ms)"
  using assms
proof (induction ms arbitrary: srv)
  case Nil
  then show ?case by simp
next
  case (Cons m ms)
  then obtain msg where m: "m = Some msg" by auto
  from serverProcess_Some [of lib clk msg srv]
  obtain srv1 where 1: "serverProcess lib clk (Some msg) srv = Inr srv1"
    "serverStats srv1 = serverStats srv"
    "MessagesReceived (stats (processor srv1)) = MessagesReceived (stats (processor srv)) + 1"
    "MessagesProcessed (stats (processor srv1)) = MessagesProcessed (stats (processor srv)) + 1"
    by blast
  from Cons.prems have "list_all (\<lambda>m. m \<noteq> None) ms" by simp
  from Cons.IH [OF this, of srv1]
  obtain srv' where 2: "processBatchMessages lib clk ms srv1 = Inr srv'"
    "serverStats srv' = serverStats srv1"
    "MessagesReceived (stats (processor srv'))
       = MessagesReceived (stats (processor srv1)) + word_of_nat (length ms)"
    "MessagesProcessed (stats (processor srv'))
       = MessagesProcessed (stats (processor srv1)) + word_of_nat (length ms)"
    by blast
  show ?case using m 1 2 by simp
qed

lemma recount_fields:
  "json_Marshal_Message (recount f lib) = json_Marshal_Message lib"
  "sha256_hex (recount f lib) = sha256_hex lib"
  "time_Parse (recount f lib) = time_Parse lib"
  by (simp_all add: recount_def)

lemma ProcessMessage_recount [simp]:
  "ProcessMessage (recount f lib) = ProcessMessage lib"
  unfolding ProcessMessage_def ValidateMessage_def CalculateChecksumString_def
    CalculateLatency_def ParseTime_def recount_fields
  by (rule refl)

lemma processBatchMessages_recount [simp]:
  "processBatchMessages (recount f lib) clk ms srv = processBatchMessages lib clk ms srv"
  by (induction ms arbitrary: srv) (simp_all add: serverProcess_def split: sum.splits)

lemma handleBatch_recount:
  "handleBatch (recount f lib) clk bs srv = handleBatch lib clk bs srv"
proof -
  have u: "json_Unmarshal_Batch (recount f lib) x
      = map_option (\<lambda>b. b\<lparr>Count := f (Count b)\<rparr>) (json_Unmarshal_Batch lib x)" for x
    by (simp add: recount_def)
  show ?thesis
    by (simp add: handleBatch_def u Let_def split: prod.splits sum.splits option.splits)
qed

text \<open>
  For a batch frame whose bytes decode to a batch with no nil entry, \<open>handleBatch\<close>
  returns without error and has processed exactly as many messages as the sequence
  holds: the processor's received and processed counts and the server's message count
  each go up by the length of the sequence, whatever the \<open>count\<close> field says. The
  field is not read for the iteration: a decoder that rewrites it by any function \<open>f\<close>
  leaves the result of \<open>handleBatch\<close> as it is.
\<close>

lemma batch_without_nil_processed:
  assumes "length lengthBytes = 4"
    and "unat (Uint32 lengthBytes) = length batchBytes"
    and "Uint32 lengthBytes \<le> 100 * 1024 * 1024"
    and "json_Unmarshal_Batch lib batchBytes = Some batch"
    and "list_all (\<lambda>m. m \<noteq> None) (Messages batch)"
  shows "(\<exists>srv'. handleBatch lib clk (lengthBytes @ batchBytes @ rest) srv = Inr (None, rest, srv')
            \<and> MessagesReceived (stats (processor srv'))
                = MessagesReceived (stats (processor srv)) + word_of_nat (length (Messages batch))
            \<and> MessagesProcessed (stats (processor srv'))
                = MessagesProcessed (stats (processor srv)) + word_of_nat (length (Messages batch))
            \<and> ServerMessagesReceived (serverStats srv')
                = ServerMessagesReceived (serverStats srv) + word_of_nat (length (Messages batch))
            \<and> BatchesReceived (serverStats srv') = BatchesReceived (serverStats srv) + 1
            \<and> Errors (serverStats srv') = Errors (serverStats srv))
       \<and> handleBatch (recount f lib) clk (lengthBytes @ batchBytes @ rest) srv
           = handleBatch lib clk (lengthBytes @ batchBytes @ rest) srv"
proof -
  have r1: "ReadFull 4 (lengthBytes @ batchBytes @ rest) = (Inr lengthBytes, batchBytes @ rest)"
    using assms(1) by (rule ReadFull_append)
  have r2: "ReadFull (unat (Uint32 lengthBytes)) (batchBytes @ rest) = (Inr batchBytes, rest)"
    using assms(2) by (intro ReadFull_append) simp
  have le: "\<not> Uint32 lengthBytes > 100 * 1024 * 1024" using assms(3) by simp
  from processBatchMessages_count [OF assms(5), of lib clk srv]
  obtain srv1 where p: "processBatchMessages lib clk (Messages batch) srv = Inr srv1"
    "serverStats srv1 = serverStats srv"
    "MessagesReceived (stats (processor srv1))
       = MessagesReceived (stats (processor srv)) + word_of_nat (length (Messages batch))"
    "MessagesProcessed (stats (processor srv1))
       = MessagesProcessed (stats (processor srv)) + word_of_nat (length (Messages batch))"
    by blast
  have "handleBatch lib clk (lengthBytes @ batchBytes @ rest) srv
      = Inr (None, rest, incrementBatchCount clk (ucast (Uint32 lengthBytes))
               (length (Messages batch)) srv1)"
    using le by (simp add: handleBatch_def r1 r2 assms(4) p(1) Let_def)
  then show ?thesis
    using p by (simp add: incrementBatchCount_def handleBatch_recount)
qed

lemma example_batch_nil_length:
  "length (bytes_of (example_json_Batch example_batch_nil)) = 374"
  by (simp add: bytes_of_def example_json_Batch_def example_batch_nil_def example_json_Message_def
        example_message_def example_json_string_def example_escape_def example_json_int_def
        example_payload1_def example_digest1_def)

lemma example_batches_differ:
  "bytes_of (example_json_Batch example_batch_nil) \<noteq> bytes_of (example_json_Batch example_batch)"
  using example_batch_nil_length example_batch_length by (metis numeral_eq_iff semiring_norm(88) num.inject)

lemma ProcessMessage_nil:
  "ProcessMessage lib startTime receiveTime None p = Inl NilDereference"
  by (simp add: ProcessMessage_def Let_def split: prod.splits)

text \<open>
  Claim C9 says that the server processes exactly \<open>len(messages)\<close> entries of every
  received batch. An entry of \<open>messages\<close> is a pointer, and a JSON \<open>null\<close> in the
  array decodes to nil. \<open>ValidateMessage\<close> answers a nil message with an error, and
  \<open>ProcessMessage\<close>, logging that error, reads \<open>message.MessageID\<close>: the goroutine
  of the connection panics, and nothing recovers it. For the batch of the example
  envelope and a \<open>null\<close>, with the \<open>count\<close> 2 of its two entries, the first
  entry is processed, the second ends the loop and the server.
\<close>

theorem batch_with_nil_entry_panics:
  "json_Unmarshal_Batch example_library (bytes_of (example_json_Batch example_batch_nil))
     = Some example_batch_nil
   \<and> Messages example_batch_nil = [Some example_message, None]
   \<and> Count example_batch_nil = 2
   \<and> (\<exists>srv. serverProcess example_library example_clock (Some example_message) example_server
               = Inr srv
            \<and> serverProcess example_library example_clock None srv = Inl NilDereference)
   \<and> handleBatch example_library example_clock
       ([0, 0, 1, 118] @ bytes_of (example_json_Batch example_batch_nil)) example_server
       = Inl NilDereference
   \<and> handleConnection example_library example_clock
       (1 # [0, 0, 1, 118] @ bytes_of (example_json_Batch example_batch_nil)) example_server
       = Inl NilDereference"
proof -
  let ?data = "bytes_of (example_json_Batch example_batch_nil)"
  have d: "json_Unmarshal_Batch example_library ?data = Some example_batch_nil"
    using example_batches_differ by (simp add: example_library_def)
  have m: "Messages example_batch_nil = [Some example_message, None]"
    "Count example_batch_nil = 2"
    by (simp_all add: example_batch_nil_def)
  obtain srv where s1: "serverProcess example_library example_clock (Some example_message)
      example_server = Inr srv"
    using serverProcess_Some [of example_library example_clock example_message example_server]
    by blast
  have s2: "serverProcess example_library example_clock None srv = Inl NilDereference" for srv
    by (simp add: serverProcess_def ProcessMessage_nil)
  have r1: "ReadFull 4 ([0, 0, 1, 118] @ ?data) = (Inr [0, 0, 1, 118], ?data)"
    by (rule ReadFull_append) simp
  have u: "unat (Uint32 [0, 0, 1, 118]) = 374" unfolding Uint32_unat by simp
  have r2: "ReadFull 374 ?data = (Inr ?data, [])"
    using ReadFull_append [of ?data 374 "[]"] example_batch_nil_length by simp
  have le: "\<not> Uint32 [0, 0, 1, 118] > 100 * 1024 * 1024" by simp
  have b: "handleBatch example_library example_clock ([0, 0, 1, 118] @ ?data) example_server
      = Inl NilDereference"
    using le
    by (simp add: handleBatch_def r1 u r2 d m s1 s2 Let_def del: Uint32.simps)
  have "handleConnection_loop example_library example_clock (1 # [0, 0, 1, 118] @ ?data)
      example_server = Inl NilDereference"
    using b by simp
  then have c: "handleConnection example_library example_clock (1 # [0, 0, 1, 118] @ ?data)
      example_server = Inl NilDereference"
    by (simp add: handleConnection_def)
  from d m s1 s2 b c show ?thesis by blast
qed

section \<open>The way of an envelope through the stream transport\<close>

lemma funpow_incrementErrorCount:
  "(incrementErrorCount ^^ n) srv
     = srv\<lparr>serverStats := (serverStats srv)\<lparr>Errors := Errors (serverStats srv) + word_of_nat n\<rparr>\<rparr>"
  by (induction n) (simp_all add: incrementErrorCount_def)

lemma byte_ge_7: "7 \<le> (b :: byte) \<Longrightarrow> b \<noteq> 0 \<and> b \<noteq> 1"
  by (auto simp: word_le_nat_alt)

lemma handleMessage_short:
  "length bs < 4 \<Longrightarrow> bs \<noteq> []
     \<Longrightarrow> handleMessage lib clk bs srv = Inr (Some (ReadLengthFailed ErrUnexpectedEOF), [], srv)"
  by (simp add: handleMessage_def ReadFull_def)

lemma handleBatch_short:
  "length bs < 4 \<Longrightarrow> bs \<noteq> []
     \<Longrightarrow> handleBatch lib clk bs srv = Inr (Some (ReadLengthFailed ErrUnexpectedEOF), [], srv)"
  by (simp add: handleBatch_def ReadFull_def)

lemma list_shape:
  "length bs < 4 \<or> (\<exists>a b c d rest. bs = a # b # c # d # rest)"
  by (cases bs; simp; cases "tl bs"; simp; cases "tl (tl bs)"; simp; cases "tl (tl (tl bs))"; simp)

lemma garbage_only_errors:
  "list_all (\<lambda>b. 7 \<le> b) bs
     \<Longrightarrow> handleConnection_loop lib clk bs srv
         = Inr ((incrementErrorCount ^^ ((length bs + 3) div 4)) srv)"
proof (induction bs arbitrary: srv rule: length_induct)
  case (1 bs)
  show ?case
  proof (cases "bs = []")
    case True
    then show ?thesis by simp
  next
    case False
    then obtain a bs' where bs: "bs = a # bs'" by (cases bs) auto
    have a: "a \<noteq> 0 \<and> a \<noteq> 1" using "1.prems" bs byte_ge_7 by simp
    from list_shape [of bs] show ?thesis
    proof
      assume short: "length bs < 4"
      then have d: "(length bs + 3) div 4 = 1" using False by (cases bs) auto
      show ?thesis
        using a handleMessage_short [OF short False, of lib clk srv]
        unfolding d by (simp add: bs)
    next
      assume "\<exists>a b c d rest. bs = a # b # c # d # rest"
      then obtain a' b c d rest where l: "bs = a' # b # c # d # rest" by blast
      have "7 \<le> a'" using "1.prems" l by simp
      then have s: "handleConnection_loop lib clk bs srv
          = handleConnection_loop lib clk rest (incrementErrorCount srv)"
        unfolding l by (intro loop_message_too_large Uint32_large)
      have r: "list_all (\<lambda>b. 7 \<le> b) rest" using "1.prems" l by simp
      have "length rest < length bs" using l by simp
      with "1.IH" r have "handleConnection_loop lib clk rest (incrementErrorCount srv)
          = Inr ((incrementErrorCount ^^ ((length rest + 3) div 4)) (incrementErrorCount srv))"
        by blast
      moreover have "(length bs + 3) div 4 = Suc ((length rest + 3) div 4)" using l by simp
      ultimately show ?thesis using s by (simp add: funpow_swap1)
    qed
  qed
qed

lemma garbage_after_marker:
  assumes "list_all (\<lambda>b. 7 \<le> b) bs" and "bs \<noteq> []"
  shows "handleConnection_loop lib clk (1 # bs) srv
         = Inr ((incrementErrorCount ^^ ((length bs + 3) div 4)) srv)"
proof -
  from list_shape [of bs] show ?thesis
  proof
    assume short: "length bs < 4"
    then have d: "(length bs + 3) div 4 = 1" using assms(2) by (cases bs) auto
    show ?thesis
      using handleBatch_short [OF short assms(2), of lib clk srv]
      unfolding d by simp
  next
    assume "\<exists>a b c d rest. bs = a # b # c # d # rest"
    then obtain a b c d rest where l: "bs = a # b # c # d # rest" by blast
    have "7 \<le> a" using assms(1) l by simp
    then have s: "handleConnection_loop lib clk (1 # bs) srv
        = handleConnection_loop lib clk rest (incrementErrorCount srv)"
      unfolding l by (intro loop_batch_too_large Uint32_large)
    have r: "list_all (\<lambda>b. 7 \<le> b) rest" using assms(1) l by simp
    have "(length bs + 3) div 4 = Suc ((length rest + 3) div 4)" using l by simp
    then show ?thesis
      using s garbage_only_errors [OF r, of lib clk "incrementErrorCount srv"]
      by (simp add: funpow_swap1)
  qed
qed

lemma Send_short_starts_with_zero:
  assumes "length (json_Marshal_Message lib (Some message)) < 2 ^ 24"
  shows "\<exists>bs. Send lib True message \<lparr>isConnected = True, written = []\<rparr>
               = Inr \<lparr>isConnected = True, written = 0 # bs\<rparr>
            \<and> handleConnection_loop lib clk (0 # bs) srv = handleConnection_loop lib clk bs srv"
proof -
  let ?n = "length (json_Marshal_Message lib (Some message))"
  have "?n < 2 ^ 32" using assms by simp
  then have "unat (word_of_nat ?n :: uint32) = ?n" by (simp add: unat_of_nat)
  then have "unat (word_of_nat ?n :: uint32) div 2 ^ 24 = 0" using assms by simp
  then show ?thesis by (simp add: Send_def Let_def PutUint32_def)
qed

text \<open>
  Claim C1 says that an envelope written by \<open>Send\<close> and read back by the server's
  reader loop is the same envelope. \<open>Send\<close> writes the length as four bytes, and for
  every serialized envelope shorter than 16 MiB the first of them is \<open>0x00\<close>, which the
  reader loop takes for a keep-alive. For the example envelope, 309 bytes of JSON, the
  frame starts \<open>00 00 01 35\<close>: the reader skips two bytes, takes \<open>01\<close> for the marker of
  a batch, reads \<open>35 7B 22 73\<close> as a length above 100 MiB, and then fails on every
  following group of four bytes. No envelope reaches the processor (the server ends
  as it was created, but for one connection and 78 errors counted).
\<close>

theorem small_frame_not_delivered:
  "Send example_library True example_message \<lparr>isConnected = True, written = []\<rparr>
     = Inr \<lparr>isConnected = True,
            written = 0 # 0 # 1 # 53 # bytes_of (example_json_Message (Some example_message))\<rparr>
   \<and> handleConnection example_library example_clock
       (0 # 0 # 1 # 53 # bytes_of (example_json_Message (Some example_message))) example_server
     = Inr (NewTCPServer\<lparr>serverStats := (serverStats NewTCPServer)
                              \<lparr>ConnectionsTotal := 1, Errors := 78\<rparr>\<rparr>)"
proof -
  let ?data = "bytes_of (example_json_Message (Some example_message))"
  have len: "length ?data = 309" by (simp add: bytes_of_def example_message_json)
  have send: "Send example_library True example_message \<lparr>isConnected = True, written = []\<rparr>
     = Inr \<lparr>isConnected = True, written = 0 # 0 # 1 # 53 # ?data\<rparr>"
    by (simp add: Send_def example_library_def Let_def len PutUint32_def)
  have g: "list_all (\<lambda>b. 7 \<le> b) (53 # ?data)"
    by (simp add: bytes_of_ge_7 example_message_json)
  have "handleConnection_loop example_library example_clock (0 # 0 # 1 # 53 # ?data) example_server
      = handleConnection_loop example_library example_clock (1 # 53 # ?data) example_server"
    by simp
  also have "\<dots> = Inr ((incrementErrorCount ^^ ((length (53 # ?data) + 3) div 4)) example_server)"
    by (rule garbage_after_marker [OF g]) simp
  also have "(length (53 # ?data) + 3) div 4 = 78" by (simp add: len)
  finally have "handleConnection_loop example_library example_clock (0 # 0 # 1 # 53 # ?data)
      example_server = Inr ((incrementErrorCount ^^ 78) example_server)" .
  then have "handleConnection example_library example_clock (0 # 0 # 1 # 53 # ?data) example_server
     = Inr (NewTCPServer\<lparr>serverStats := (serverStats NewTCPServer)
                              \<lparr>ConnectionsTotal := 1, Errors := 78\<rparr>\<rparr>)"
    unfolding funpow_incrementErrorCount
    by (simp add: handleConnection_def decrementConnectionCount_def incrementConnectionCount_def
          example_server_def NewTCPServer_def)
  with send show ?thesis by simp
qed

end
